theory Spec2Isabelle
  imports Main "HOL-Library.Word"
begin

section \<open>Host (Python) objects as seen through pybind11\<close>

text \<open>
  \<^verbatim>\<open>init.cpp\<close> looks at a \<^verbatim>\<open>py::object\<close> only through type checks, casts,
  attribute lookup, identity with an imported module, and the name of its type. A Python
  object is modelled by a constructor for each type these checks tell apart.

  A \<^verbatim>\<open>double\<close> is its 64 bits and a C++ \<^verbatim>\<open>float\<close> its 32 bits, in the IEEE 754
  formats (sign, 11 or 8 bits of exponent, 52 or 23 bits of fraction).
\<close>

type_synonym double = "64 word"

type_synonym c_float = "32 word"

text \<open>\<open>M / 2\<^sup>k\<close> rounded to the nearest integer, a tie to the even one.\<close>

definition round_shift :: "nat \<Rightarrow> nat \<Rightarrow> nat" where
  "round_shift M k =
     (let q = M div 2 ^ k; r = M mod 2 ^ k
      in if 2 * r > 2 ^ k \<or> (2 * r = 2 ^ k \<and> odd q) then q + 1 else q)"

text \<open>
  The conversion \<^verbatim>\<open>(float) d\<close> that \<^verbatim>\<open>py::cast<float>\<close> applies to the double of a Python
  float, in the default rounding mode. A NaN keeps its sign and the upper bits of its
  fraction and is made quiet; an infinity stays; a zero or subnormal double becomes the zero
  of its sign. Otherwise the 53-bit significand is rounded to 24 bits, or to fewer below the
  normal range of \<^verbatim>\<open>float\<close>; the carry of the rounding runs into the exponent, and a
  result beyond the largest \<^verbatim>\<open>float\<close> is the infinity.
\<close>

definition float_of_double :: "double \<Rightarrow> c_float" where
  "float_of_double d =
     (let bits = unat d;
          sign = (bits div 2 ^ 63) * 2 ^ 31;
          e = (bits div 2 ^ 52) mod 2 ^ 11;
          f = bits mod 2 ^ 52;
          M = 2 ^ 52 + f
      in of_nat
           (if e = 2047 then
              (if f = 0 then sign + 255 * 2 ^ 23
               else sign + 255 * 2 ^ 23 + 2 ^ 22 + (f div 2 ^ 29) mod 2 ^ 22)
            else if e = 0 then sign
            else if 897 \<le> e then
              (let b = (e - 897) * 2 ^ 23 + round_shift M 29
               in if 255 * 2 ^ 23 \<le> b then sign + 255 * 2 ^ 23 else sign + b)
            else sign + round_shift M (29 + (897 - e))))"

datatype pyobj =
    PyNone
  | PyBool bool
  | PyInt int
  | PyFloat double
  | PyStr string
  | PyTuple "pyobj list"
  | PyModule string "(string \<times> pyobj) list"
      \<comment> \<open>a module object: the name it is imported under, and its attributes\<close>
  | PyCallable string "(string \<times> pyobj) list"
      \<comment> \<open>a callable that is not a \<^verbatim>\<open>torch.nn.Module\<close>: the name of its type, its attributes\<close>
  | PyNNModule string "(string \<times> pyobj) list"
      \<comment> \<open>an instance of a subclass of \<^verbatim>\<open>torch.nn.Module\<close> (callable)\<close>
  | PyOther string "(string \<times> pyobj) list"
      \<comment> \<open>any other object: the name of its type, its attributes\<close>

text \<open>
  \<^verbatim>\<open>py::isinstance<T>(h)\<close> is the C-API check of \<^verbatim>\<open>T\<close>. \<^verbatim>\<open>py::int_\<close> is checked by
  \<^verbatim>\<open>PyLong_Check\<close>, and Python's \<^verbatim>\<open>bool\<close> is a subclass of \<^verbatim>\<open>int\<close>, so \<^verbatim>\<open>True\<close>
  and \<^verbatim>\<open>False\<close> are instances of \<^verbatim>\<open>py::int_\<close>. \<^verbatim>\<open>py::function\<close> is checked by
  \<^verbatim>\<open>PyCallable_Check\<close>.
\<close>

fun isinstance_int :: "pyobj \<Rightarrow> bool" where
  "isinstance_int (PyInt n) = True"
| "isinstance_int (PyBool b) = True"
| "isinstance_int h = False"

fun isinstance_float :: "pyobj \<Rightarrow> bool" where
  "isinstance_float (PyFloat d) = True"
| "isinstance_float h = False"

fun isinstance_bool :: "pyobj \<Rightarrow> bool" where
  "isinstance_bool (PyBool b) = True"
| "isinstance_bool h = False"

fun isinstance_tuple :: "pyobj \<Rightarrow> bool" where
  "isinstance_tuple (PyTuple xs) = True"
| "isinstance_tuple h = False"

fun isinstance_function :: "pyobj \<Rightarrow> bool" where
  "isinstance_function (PyCallable t a) = True"
| "isinstance_function (PyNNModule t a) = True"
| "isinstance_function h = False"

fun isinstance_module :: "pyobj \<Rightarrow> bool" where
  "isinstance_module (PyModule n a) = True"
| "isinstance_module h = False"

text \<open>\<^verbatim>\<open>py::isinstance(h, py::module::import("torch.nn").attr("Module"))\<close>\<close>

fun isinstance_nn_Module :: "pyobj \<Rightarrow> bool" where
  "isinstance_nn_Module (PyNNModule t a) = True"
| "isinstance_nn_Module h = False"

text \<open>
  \<^verbatim>\<open>h.is(py::module::import(name))\<close>: \<^verbatim>\<open>sys.modules\<close> holds one module object for each
  name, so a module object is identified by the name it is imported under.
\<close>

fun is_imported :: "pyobj \<Rightarrow> string \<Rightarrow> bool" where
  "is_imported (PyModule n a) name = (n = name)"
| "is_imported h name = False"

text \<open>
  \<^verbatim>\<open>PyObject_GetAttrString\<close>: the attribute of that name, \<open>None\<close> when the lookup
  raises. The attribute list of an object holds what the lookup finds on it. An object
  modelled by its value (\<^verbatim>\<open>None\<close>, a boolean, an integer, a float, a string, a tuple) has
  the attributes its type gives it, such as \<^verbatim>\<open>real\<close> of an integer; these are the host's
  and a parameter \<open>T\<close> of the model.
\<close>

type_synonym type_attrs = "pyobj \<Rightarrow> string \<Rightarrow> pyobj option"

fun py_getattr :: "type_attrs \<Rightarrow> pyobj \<Rightarrow> string \<Rightarrow> pyobj option" where
  "py_getattr T (PyModule n a) name = map_of a name"
| "py_getattr T (PyCallable t a) name = map_of a name"
| "py_getattr T (PyNNModule t a) name = map_of a name"
| "py_getattr T (PyOther t a) name = map_of a name"
| "py_getattr T h name = T h name"

text \<open>\<^verbatim>\<open>typeString(h)\<close>: \<^verbatim>\<open>py::str(h.get_type().attr("__name__"))\<close>\<close>

fun typeString :: "pyobj \<Rightarrow> string" where
  "typeString PyNone = ''NoneType''"
| "typeString (PyBool b) = ''bool''"
| "typeString (PyInt n) = ''int''"
| "typeString (PyFloat d) = ''float''"
| "typeString (PyStr s) = ''str''"
| "typeString (PyTuple xs) = ''tuple''"
| "typeString (PyModule n a) = ''module''"
| "typeString (PyCallable t a) = t"
| "typeString (PyNNModule t a) = t"
| "typeString (PyOther t a) = t"

section \<open>Error reports\<close>

text \<open>
  Every failure raised in \<^verbatim>\<open>init.cpp\<close> is \<^verbatim>\<open>throw ErrorReport(loc) << ... \<close>: a source range and
  the pieces streamed into the report, in order. A failed \<^verbatim>\<open>py::cast\<close> throws
  pybind11's \<^verbatim>\<open>cast_error\<close> instead.
\<close>

type_synonym SourceRange = "nat \<times> nat"

datatype fragment = Str string | Num nat | Repr pyobj

datatype error = ErrorReport SourceRange "fragment list" | cast_error

text \<open>
  \<^verbatim>\<open>static void ensureSizeMatches(SourceRange loc, size_t expected, size_t actual,
  const std::string& what)\<close>
\<close>

definition ensureSizeMatches :: "SourceRange \<Rightarrow> nat \<Rightarrow> nat \<Rightarrow> string \<Rightarrow> error + unit" where
  "ensureSizeMatches loc expected actual what =
     (if expected \<noteq> actual
      then Inl (ErrorReport loc
             [Str ''expected '', Num expected, Str '' '', Str what, Str '' but found '', Num actual])
      else Inr ())"

section \<open>The graph IR\<close>

text \<open>
  Modelled from the spec: the graph IR handles (\<^verbatim>\<open>ir.h\<close>, outside \<^verbatim>\<open>init.cpp\<close>). A
  \<^verbatim>\<open>Value*\<close> is the unique number the graph gave the value when it was created; a node
  has a kind, its inputs, its outputs and a source location; a graph is the sequence of
  nodes inserted so far and the next unused number. Only the constructors that
  \<^verbatim>\<open>init.cpp\<close> calls are modelled.
\<close>

datatype ScalarType = kByte | kInt | kFloat

datatype Scalar = IntScalar "32 word" | FloatScalar c_float | BoolScalar bool

text \<open>A tensor: element kind, sizes (one per dimension), elements.\<close>

record Tensor =
  scalar_type :: ScalarType
  sizes :: "nat list"
  elements :: "Scalar list"

text \<open>\<^verbatim>\<open>at::CPU(t).scalarTensor(s)\<close>: the zero-dimensional tensor of kind \<open>t\<close> holding \<open>s\<close>.\<close>

definition scalarTensor :: "ScalarType \<Rightarrow> Scalar \<Rightarrow> Tensor" where
  "scalarTensor t s = \<lparr>scalar_type = t, sizes = [], elements = [s]\<rparr>"

type_synonym Value = nat

datatype NodeKind =
    Constant Tensor
  | PythonOp pyobj string bool "bool list" "pyobj list" bool
      \<comment> \<open>function object, calling convention, is_legacy, var_flags, scalar_args,
          tracing_autograd_python_function\<close>
  | Builtin string

record Node =
  node_kind :: NodeKind
  node_inputs :: "Value list"
  node_outputs :: "Value list"
  source_location :: "SourceRange option"

record Graph =
  nodes :: "Node list"
  next_unique :: nat

definition create :: "NodeKind \<Rightarrow> Node" where
  "create k = \<lparr>node_kind = k, node_inputs = [], node_outputs = [], source_location = None\<rparr>"

definition setSourceLocation :: "Node \<Rightarrow> SourceRange \<Rightarrow> Node" where
  "setSourceLocation n loc = n\<lparr>source_location := Some loc\<rparr>"

definition addInput :: "Node \<Rightarrow> Value \<Rightarrow> Node" where
  "addInput n v = n\<lparr>node_inputs := node_inputs n @ [v]\<rparr>"

text \<open>\<^verbatim>\<open>n->addOutput()\<close>: a new value of the graph, appended to the outputs of \<open>n\<close>.\<close>

definition addOutput :: "Node \<Rightarrow> Graph \<Rightarrow> Value \<times> Node \<times> Graph" where
  "addOutput n g =
     (next_unique g,
      n\<lparr>node_outputs := node_outputs n @ [next_unique g]\<rparr>,
      g\<lparr>next_unique := Suc (next_unique g)\<rparr>)"

definition createPythonOp ::
  "pyobj \<Rightarrow> string \<Rightarrow> bool \<Rightarrow> bool list \<Rightarrow> pyobj list \<Rightarrow> bool \<Rightarrow> Node" where
  "createPythonOp func cconv is_legacy var_flags scalar_args tracing =
     create (PythonOp func cconv is_legacy var_flags scalar_args tracing)"

text \<open>
  \<^verbatim>\<open>g.createConstant(val)\<close>: a constant node, created with its single output, which
  \<^verbatim>\<open>n->output()\<close> returns later; the model returns it with the node.
\<close>

definition createConstant_node :: "Graph \<Rightarrow> Tensor \<Rightarrow> Value \<times> Node \<times> Graph" where
  "createConstant_node g val = addOutput (create (Constant val)) g"

text \<open>\<^verbatim>\<open>g.insertNode(n)\<close>: the node is appended at the insertion point, the end.\<close>

definition insertNode :: "Graph \<Rightarrow> Node \<Rightarrow> Graph" where
  "insertNode g n = g\<lparr>nodes := nodes g @ [n]\<rparr>"

section \<open>Methods and modules\<close>

text \<open>
  Modelled from the spec: \<^verbatim>\<open>Method\<close> and \<^verbatim>\<open>Module\<close> (\<^verbatim>\<open>module.h\<close>, outside
  \<^verbatim>\<open>init.cpp\<close>). A method is a compiled subroutine owning a graph, with a fixed declared input
  count. A module holds named submodules, named parameters (each with an is-buffer flag
  and a storage slot) and named methods, each in registration order; \<^verbatim>\<open>find_module\<close>,
  \<^verbatim>\<open>find_parameter\<close> and \<^verbatim>\<open>find_method\<close> return the entry of that name, if any.

  \<^verbatim>\<open>py::cast(module)\<close> is the Python object of the module. Of it, \<^verbatim>\<open>init.cpp\<close> reads the
  attributes \<^verbatim>\<open>getattr\<close> finds (\<open>py_attrs\<close>) and the names in its \<^verbatim>\<open>_constants_set\<close>
  (\<open>constants_set\<close>).
\<close>

record Method =
  method_name :: string
  graph :: Graph
  num_inputs :: nat

type_synonym slot = nat

record NamedParameter =
  param_name :: string
  is_buffer :: bool
  param_slot :: slot

datatype Module = Module
  (modules: "(string \<times> Module) list")
  (parameters: "NamedParameter list")
  (methods: "Method list")
  (py_attrs: "(string \<times> pyobj) list")
  (constants_set: "string list")

definition find_module :: "Module \<Rightarrow> string \<Rightarrow> (string \<times> Module) option" where
  "find_module m name = find (\<lambda>nm. fst nm = name) (modules m)"

definition find_method :: "Module \<Rightarrow> string \<Rightarrow> Method option" where
  "find_method m name = find (\<lambda>f. method_name f = name) (methods m)"

definition find_parameter :: "Module \<Rightarrow> string \<Rightarrow> NamedParameter option" where
  "find_parameter m name = find (\<lambda>p. param_name p = name) (parameters m)"

text \<open>
  The two operations of the compiling \<^verbatim>\<open>Method\<close> that \<^verbatim>\<open>init.cpp\<close> calls and
  \<^verbatim>\<open>module.h\<close> defines are parameters of the model:
  \<^verbatim>\<open>caller.emit_call_to(callee, inputs)\<close> inlines the callee into the caller and returns
  the outputs, and \<^verbatim>\<open>m.get_or_add_parameter(slot)\<close> returns the graph input of a
  parameter slot. Both change the caller, which is returned with the result.
\<close>

record method_ops =
  emit_call_to :: "Method \<Rightarrow> Method \<Rightarrow> Value list \<Rightarrow> Value list \<times> Method"
  get_or_add_parameter :: "Method \<Rightarrow> slot \<Rightarrow> Value \<times> Method"

section \<open>The membership queries of the Python binding\<close>

text \<open>The lambdas bound as \<^verbatim>\<open>_has_parameter\<close>, \<^verbatim>\<open>_has_buffer\<close>, \<^verbatim>\<open>_has_module\<close>,
  \<^verbatim>\<open>_has_method\<close> in \<^verbatim>\<open>initJitScriptBindings\<close>.\<close>

definition has_parameter :: "Module \<Rightarrow> string \<Rightarrow> bool" where
  "has_parameter self name =
     (case find_parameter self name of Some r \<Rightarrow> \<not> is_buffer r | None \<Rightarrow> False)"

definition has_buffer :: "Module \<Rightarrow> string \<Rightarrow> bool" where
  "has_buffer self name =
     (case find_parameter self name of Some r \<Rightarrow> is_buffer r | None \<Rightarrow> False)"

definition has_module :: "Module \<Rightarrow> string \<Rightarrow> bool" where
  "has_module self name = (find_module self name \<noteq> None)"

definition has_method :: "Module \<Rightarrow> string \<Rightarrow> bool" where
  "has_method self name = (find_method self name \<noteq> None)"

section \<open>Sugared values\<close>

text \<open>
  The classes deriving from \<^verbatim>\<open>SugaredValue\<close> that \<^verbatim>\<open>init.cpp\<close> defines or constructs.
  \<^verbatim>\<open>MethodValue\<close> holds its module and its method, \<^verbatim>\<open>ModuleValue\<close> its module.
\<close>

datatype SugaredValue =
    SimpleValue Value
  | BuiltinFunction string
  | PythonValue pyobj
  | ConstantPythonValue pyobj
  | MethodValue Module Method
  | ModuleValue Module

text \<open>
  A keyword argument of a call (\<^verbatim>\<open>List<Attribute>\<close>); \<^verbatim>\<open>init.cpp\<close> only counts them,
  so one is modelled by its name.
\<close>

type_synonym Attribute = string

text \<open>
  An operation that takes the compiling \<^verbatim>\<open>Method &\<close> returns its outcome, the thrown
  error or the returned value, and the method as the operation left it.
\<close>

type_synonym 'a result = "(error + 'a) \<times> Method"

text \<open>The character \<^verbatim>\<open>'\<close> of the messages.\<close>

definition apos :: string where
  "apos = [CHR 0x27]"

subsection \<open>The defaults of the base class\<close>

text \<open>
  Modelled from the spec: the virtual functions of \<^verbatim>\<open>SugaredValue\<close> itself
  (\<^verbatim>\<open>compiler.h\<close>, outside \<^verbatim>\<open>init.cpp\<close>). Each default fails, with the message the
  spec gives for it.
\<close>

definition SugaredValue_call :: "SourceRange \<Rightarrow> Method \<Rightarrow> Value list result" where
  "SugaredValue_call loc m = (Inl (ErrorReport loc [Str ''not callable'']), m)"

definition SugaredValue_attr :: "SourceRange \<Rightarrow> Method \<Rightarrow> SugaredValue result" where
  "SugaredValue_attr loc m = (Inl (ErrorReport loc [Str ''no attributes'']), m)"

definition SugaredValue_asValue :: "SourceRange \<Rightarrow> Method \<Rightarrow> Value result" where
  "SugaredValue_asValue loc m = (Inl (ErrorReport loc [Str ''cannot be used as a value'']), m)"

definition SugaredValue_unrolledFor :: "SourceRange \<Rightarrow> Method \<Rightarrow> SugaredValue list result" where
  "SugaredValue_unrolledFor loc m =
     (Inl (ErrorReport loc [Str ''not iterable at compile time'']), m)"

subsection \<open>\<^verbatim>\<open>struct PythonValue\<close>\<close>

text \<open>The loop \<^verbatim>\<open>for(size_t i = 0; i < n_outputs; ++i) outputs.push_back(new_node->addOutput())\<close>\<close>

fun add_outputs :: "nat \<Rightarrow> Node \<Rightarrow> Graph \<Rightarrow> Value list \<Rightarrow> Value list \<times> Node \<times> Graph" where
  "add_outputs 0 new_node g outputs = (outputs, new_node, g)"
| "add_outputs (Suc k) new_node g outputs =
     (let (v, new_node', g') = addOutput new_node g
      in add_outputs k new_node' g' (outputs @ [v]))"

text \<open>
  \<^verbatim>\<open>PythonValue::call\<close>. The source inserts the node and then sets its location, inputs
  and outputs through the pointer; the model completes the node and then inserts it.
\<close>

definition PythonValue_call ::
  "pyobj \<Rightarrow> SourceRange \<Rightarrow> Method \<Rightarrow> Value list \<Rightarrow> Attribute list \<Rightarrow> nat \<Rightarrow> Value list result" where
  "PythonValue_call self loc m inputs attributes n_outputs =
     (if length attributes > 0
      then (Inl (ErrorReport loc [Str ''keyword arguments in Python calls aren't supported'']), m)
      else
        let g = graph m;
            func = self;
            cconv = replicate (length inputs) CHR ''t'';
            new_node = createPythonOp func cconv False [] [] False;
            new_node = setSourceLocation new_node loc;
            new_node = foldl addInput new_node inputs;
            (outputs, new_node, g) = add_outputs n_outputs new_node g [];
            g = insertNode g new_node
        in (Inr outputs, m\<lparr>graph := g\<rparr>))"

text \<open>\<^verbatim>\<open>PythonValue::isBuiltinModule\<close>\<close>

definition isBuiltinModule :: "pyobj \<Rightarrow> bool" where
  "isBuiltinModule self = (is_imported self ''torch'' \<or> is_imported self ''torch.nn.functional'')"

text \<open>\<^verbatim>\<open>PythonValue::getattr\<close>\<close>

definition getattr :: "type_attrs \<Rightarrow> pyobj \<Rightarrow> SourceRange \<Rightarrow> string \<Rightarrow> error + pyobj" where
  "getattr T self loc name =
     (case py_getattr T self name of
        Some member \<Rightarrow> Inr member
      | None \<Rightarrow> Inl (ErrorReport loc [Str ''object has no attribute '', Str name]))"

text \<open>\<^verbatim>\<open>PythonValue::attr\<close>\<close>

definition PythonValue_attr ::
  "type_attrs \<Rightarrow> pyobj \<Rightarrow> SourceRange \<Rightarrow> Method \<Rightarrow> string \<Rightarrow> SugaredValue result" where
  "PythonValue_attr T self loc m field =
     (case getattr T self loc field of
        Inl e \<Rightarrow> (Inl e, m)
      | Inr member \<Rightarrow>
          if isBuiltinModule self \<and> isinstance_function member
          then (Inr (BuiltinFunction field), m)
          else if isinstance_module self \<and> isinstance_module member
          then (Inr (PythonValue member), m)
          else (Inl (ErrorReport loc
                  [Str ''unsupported attribute lookup on '', Repr self, Str ''.'']), m))"

text \<open>\<^verbatim>\<open>PythonValue::kind\<close>\<close>

definition PythonValue_kind :: "pyobj \<Rightarrow> string" where
  "PythonValue_kind self = ''python value of type '' @ apos @ typeString self @ apos"

subsection \<open>\<^verbatim>\<open>struct ConstantPythonValue\<close>\<close>

text \<open>
  \<^verbatim>\<open>py::cast<int32_t>(h)\<close>: pybind11 reads the integer with \<^verbatim>\<open>PyLong_AsLong\<close> and refuses a
  value outside the range of \<^verbatim>\<open>int32_t\<close>; \<^verbatim>\<open>py::cast\<close> then throws \<^verbatim>\<open>cast_error\<close>.
  \<^verbatim>\<open>py::cast<float>(h)\<close> converts the double of a Python float, \<^verbatim>\<open>py::cast<bool>(h)\<close>
  reads \<^verbatim>\<open>True\<close> or \<^verbatim>\<open>False\<close>. Each is given for the objects that pass the type check
  made before it in \<^verbatim>\<open>asValue\<close>; for every other object the cast is modelled as failing.
\<close>

fun cast_int32 :: "pyobj \<Rightarrow> error + 32 word" where
  "cast_int32 (PyInt n) =
     (if - (2 ^ 31) \<le> n \<and> n < 2 ^ 31 then Inr (word_of_int n) else Inl cast_error)"
| "cast_int32 (PyBool b) = Inr (if b then 1 else 0)"
| "cast_int32 h = Inl cast_error"

fun cast_float :: "pyobj \<Rightarrow> error + c_float" where
  "cast_float (PyFloat d) = Inr (float_of_double d)"
| "cast_float h = Inl cast_error"

fun cast_bool :: "pyobj \<Rightarrow> error + bool" where
  "cast_bool (PyBool b) = Inr b"
| "cast_bool h = Inl cast_error"

text \<open>\<^verbatim>\<open>ConstantPythonValue::createConstant\<close>\<close>

definition createConstant :: "SourceRange \<Rightarrow> Method \<Rightarrow> Tensor \<Rightarrow> Value \<times> Method" where
  "createConstant loc m val =
     (let (v, n, g) = createConstant_node (graph m) val;
          n = setSourceLocation n loc;
          g = insertNode g n
      in (v, m\<lparr>graph := g\<rparr>))"

text \<open>
  \<^verbatim>\<open>ConstantPythonValue::asValue\<close>. \<^verbatim>\<open>PythonValue\<close> does not override \<^verbatim>\<open>asValue\<close>, so
  \<^verbatim>\<open>PythonValue::asValue\<close> is the default of the base class.
\<close>

definition ConstantPythonValue_asValue :: "pyobj \<Rightarrow> SourceRange \<Rightarrow> Method \<Rightarrow> Value result" where
  "ConstantPythonValue_asValue self loc m =
     (if isinstance_int self then
        (case cast_int32 self of
           Inl e \<Rightarrow> (Inl e, m)
         | Inr x \<Rightarrow>
             (let (v, m') = createConstant loc m (scalarTensor kInt (IntScalar x)) in (Inr v, m')))
      else if isinstance_float self then
        (case cast_float self of
           Inl e \<Rightarrow> (Inl e, m)
         | Inr x \<Rightarrow>
             (let (v, m') = createConstant loc m (scalarTensor kFloat (FloatScalar x)) in (Inr v, m')))
      else if isinstance_bool self then
        (case cast_bool self of
           Inl e \<Rightarrow> (Inl e, m)
         | Inr x \<Rightarrow>
             (let (v, m') = createConstant loc m (scalarTensor kByte (BoolScalar x)) in (Inr v, m')))
      else SugaredValue_asValue loc m)"

text \<open>The elements of a tuple (\<^verbatim>\<open>py::tuple tup = self\<close>).\<close>

fun tuple_items :: "pyobj \<Rightarrow> pyobj list" where
  "tuple_items (PyTuple xs) = xs"
| "tuple_items h = []"

text \<open>
  \<^verbatim>\<open>ConstantPythonValue::unrolledFor\<close>: the loop over \<^verbatim>\<open>i < tup.size()\<close> pushes
  \<^verbatim>\<open>ConstantPythonValue(tup[i])\<close>.
\<close>

definition ConstantPythonValue_unrolledFor ::
  "pyobj \<Rightarrow> SourceRange \<Rightarrow> Method \<Rightarrow> SugaredValue list result" where
  "ConstantPythonValue_unrolledFor self loc m =
     (if \<not> isinstance_tuple self then SugaredValue_unrolledFor loc m
      else
        let tup = tuple_items self;
            result = map (\<lambda>i. ConstantPythonValue (tup ! i)) [0..<length tup]
        in (Inr result, m))"

text \<open>\<^verbatim>\<open>pythonResolver\<close>: the callback's \<^verbatim>\<open>None\<close> means that the name is undefined.\<close>

definition pythonResolver :: "(string \<Rightarrow> pyobj) \<Rightarrow> string \<Rightarrow> SugaredValue option" where
  "pythonResolver rcb name =
     (let obj = rcb name in if obj = PyNone then None else Some (PythonValue obj))"

subsection \<open>\<^verbatim>\<open>struct MethodValue\<close>\<close>

text \<open>\<^verbatim>\<open>MethodValue::call\<close>\<close>

definition MethodValue_call ::
  "method_ops \<Rightarrow> Method \<Rightarrow> SourceRange \<Rightarrow> Method \<Rightarrow> Value list \<Rightarrow> Attribute list \<Rightarrow> nat
     \<Rightarrow> Value list result" where
  "MethodValue_call E method loc caller inputs attributes n_outputs =
     (if length attributes \<noteq> 0
      then (Inl (ErrorReport loc
              [Str ''not yet implemented - calls to python functions using keyword arguments'']),
            caller)
      else
        case ensureSizeMatches loc (num_inputs method) (length inputs) ''inputs'' of
          Inl e \<Rightarrow> (Inl e, caller)
        | Inr _ \<Rightarrow>
            let (outputs, caller') = emit_call_to E caller method inputs
            in case ensureSizeMatches loc (length outputs) n_outputs ''outputs'' of
                 Inl e \<Rightarrow> (Inl e, caller')
               | Inr _ \<Rightarrow> (Inr outputs, caller'))"

subsection \<open>\<^verbatim>\<open>struct ModuleValue\<close>\<close>

text \<open>
  A \<^verbatim>\<open>py::object\<close> is a pointer: \<open>None\<close> is the null pointer, \<open>Some h\<close> a reference to the
  Python object \<open>h\<close>. \<^verbatim>\<open>py::none()\<close> is a reference to Python's \<^verbatim>\<open>None\<close> object, and the
  conversion of a \<^verbatim>\<open>py::object\<close> to \<^verbatim>\<open>bool\<close> tells whether the pointer is not null.
  \<^verbatim>\<open>py::getattr(obj, name, default_)\<close> returns the attribute, or \<^verbatim>\<open>default_\<close> when the
  lookup raises.
\<close>

definition py_none :: "pyobj option" where
  "py_none = Some PyNone"

definition py_getattr_default ::
  "(string \<times> pyobj) list \<Rightarrow> string \<Rightarrow> pyobj option \<Rightarrow> pyobj option" where
  "py_getattr_default attrs name dflt =
     (case map_of attrs name of Some result \<Rightarrow> Some result | None \<Rightarrow> dflt)"

text \<open>\<^verbatim>\<open>ModuleValue::attr\<close>\<close>

definition ModuleValue_attr ::
  "method_ops \<Rightarrow> Module \<Rightarrow> SourceRange \<Rightarrow> Method \<Rightarrow> string \<Rightarrow> SugaredValue result" where
  "ModuleValue_attr E module loc m field =
     (case find_module module field of
        Some v \<Rightarrow> (Inr (ModuleValue (snd v)), m)
      | None \<Rightarrow>
     (case find_method module field of
        Some v \<Rightarrow> (Inr (MethodValue module v), m)
      | None \<Rightarrow>
     (case find_parameter module field of
        Some v \<Rightarrow>
          (let (x, m') = get_or_add_parameter E m (param_slot v) in (Inr (SimpleValue x), m'))
      | None \<Rightarrow>
     (case py_getattr_default (py_attrs module) field py_none of
        Some attr \<Rightarrow>
          if isinstance_function attr \<or> isinstance_nn_Module attr
          then (Inr (PythonValue attr), m)
          else if field \<in> set (constants_set module)
          then (Inr (ConstantPythonValue attr), m)
          else (Inl (ErrorReport loc
                  [Str (''attribute '' @ apos), Str field, Str (apos @ '' of type '' @ apos),
                   Str (typeString attr),
                   Str (apos @ '' is not usable in a script method (did you forget to add it __constants__?)'')]),
                m)
      | None \<Rightarrow>
          (Inl (ErrorReport loc [Str (''module has no attribute '' @ apos), Str field, Str apos]),
           m)))))"

subsection \<open>\<^verbatim>\<open>BuiltinFunction\<close>\<close>

text \<open>
  Modelled from the spec: \<^verbatim>\<open>BuiltinFunction::call\<close> (\<^verbatim>\<open>compiler.cpp\<close>, outside
  \<^verbatim>\<open>init.cpp\<close>), which the spec gives the call semantics of an external value: keyword arguments
  are rejected, otherwise one node for the named builtin is inserted with the inputs and the
  requested number of outputs.
\<close>

definition BuiltinFunction_call ::
  "string \<Rightarrow> SourceRange \<Rightarrow> Method \<Rightarrow> Value list \<Rightarrow> Attribute list \<Rightarrow> nat \<Rightarrow> Value list result" where
  "BuiltinFunction_call name loc m inputs attributes n_outputs =
     (if length attributes > 0
      then (Inl (ErrorReport loc [Str ''keyword arguments aren't supported'']), m)
      else
        let new_node = setSourceLocation (create (Builtin name)) loc;
            new_node = foldl addInput new_node inputs;
            (outputs, new_node, g) = add_outputs n_outputs new_node (graph m) [];
            g = insertNode g new_node
        in (Inr outputs, m\<lparr>graph := g\<rparr>))"

section \<open>Example values\<close>

text \<open>
  A caller whose graph has no node yet and has given out the values 0, 1 and 2 (its
  inputs); a method \<^verbatim>\<open>forward\<close> declared with two inputs; method
  operations under which an inlined call yields two new values and a parameter slot one
  new graph input; and a module with a submodule, two parameters (one of them a buffer),
  the method, and three Python attributes, of which \<^verbatim>\<open>dims\<close> is declared constant.
\<close>

definition example_graph :: Graph where
  "example_graph = \<lparr>nodes = [], next_unique = 3\<rparr>"

definition example_caller :: Method where
  "example_caller = \<lparr>method_name = ''caller'', graph = example_graph, num_inputs = 0\<rparr>"

definition example_forward :: Method where
  "example_forward = \<lparr>method_name = ''forward'', graph = example_graph, num_inputs = 2\<rparr>"

definition example_ops :: method_ops where
  "example_ops =
     \<lparr>emit_call_to = (\<lambda>caller callee inputs.
        ([next_unique (graph caller), Suc (next_unique (graph caller))],
         caller\<lparr>graph := (graph caller)\<lparr>next_unique := next_unique (graph caller) + 2\<rparr>\<rparr>)),
      get_or_add_parameter = (\<lambda>m s.
        (next_unique (graph m),
         m\<lparr>graph := (graph m)\<lparr>next_unique := Suc (next_unique (graph m))\<rparr>\<rparr>))\<rparr>"

definition example_module :: Module where
  "example_module =
     Module
       [(''layer1'', Module [] [] [] [] [])]
       [\<lparr>param_name = ''weight'', is_buffer = False, param_slot = 0\<rparr>,
        \<lparr>param_name = ''running_mean'', is_buffer = True, param_slot = 1\<rparr>]
       [example_forward]
       [(''act'', PyCallable ''function'' []), (''hidden'', PyInt 5),
        (''dims'', PyTuple [PyInt 1, PyInt 2, PyInt 3])]
       [''dims'']"

text \<open>
  The module \<^verbatim>\<open>torch\<close> with a builtin function and the submodule \<^verbatim>\<open>torch.nn\<close>, and an
  object of a user class with one data attribute.
\<close>

definition example_torch :: pyobj where
  "example_torch =
     PyModule ''torch''
       [(''add'', PyCallable ''builtin_function_or_method'' []),
        (''nn'', PyModule ''torch.nn'' [(''functional'', PyModule ''torch.nn.functional'' [])]),
        (''__version__'', PyStr ''0.4.0'')]"

definition example_object :: pyobj where
  "example_object = PyOther ''Config'' [(''depth'', PyInt 4)]"

text \<open>
  Attributes of the builtin types for the examples: an integer has its \<^verbatim>\<open>real\<close> part,
  itself, and the method \<^verbatim>\<open>bit_length\<close>.
\<close>

fun example_type_attrs :: type_attrs where
  "example_type_attrs (PyInt n) name =
     (if name = ''real'' then Some (PyInt n)
      else if name = ''bit_length'' then Some (PyCallable ''builtin_function_or_method'' [])
      else None)"
| "example_type_attrs h name = None"

section \<open>The virtual \<^verbatim>\<open>call\<close>\<close>

text \<open>
  \<^verbatim>\<open>v->call(...)\<close> dispatches on the class of \<open>v\<close>. \<^verbatim>\<open>ConstantPythonValue\<close> inherits
  \<^verbatim>\<open>PythonValue::call\<close>; a \<^verbatim>\<open>SimpleValue\<close> has the default of the base class.
  \<^verbatim>\<open>ModuleValue::call\<close> is
  \<^verbatim>\<open>attr(loc, caller, "forward")->call(loc, caller, inputs, attributes, n_outputs)\<close>.
\<close>

fun rank :: "SugaredValue \<Rightarrow> nat" where
  "rank (ModuleValue module) = Suc (size module)"
| "rank v = 0"

function call ::
  "method_ops \<Rightarrow> SugaredValue \<Rightarrow> SourceRange \<Rightarrow> Method \<Rightarrow> Value list \<Rightarrow> Attribute list \<Rightarrow> nat
     \<Rightarrow> Value list result" where
  "call E (SimpleValue v) loc m inputs attributes n_outputs = SugaredValue_call loc m"
| "call E (BuiltinFunction name) loc m inputs attributes n_outputs =
     BuiltinFunction_call name loc m inputs attributes n_outputs"
| "call E (PythonValue self) loc m inputs attributes n_outputs =
     PythonValue_call self loc m inputs attributes n_outputs"
| "call E (ConstantPythonValue self) loc m inputs attributes n_outputs =
     PythonValue_call self loc m inputs attributes n_outputs"
| "call E (MethodValue module method) loc caller inputs attributes n_outputs =
     MethodValue_call E method loc caller inputs attributes n_outputs"
| "call E (ModuleValue module) loc caller inputs attributes n_outputs =
     (case ModuleValue_attr E module loc caller ''forward'' of
        (Inl e, caller') \<Rightarrow> (Inl e, caller')
      | (Inr v, caller') \<Rightarrow> call E v loc caller' inputs attributes n_outputs)"
  by pat_completeness auto

text \<open>
  The spec's description of calling a module, to be compared with \<^verbatim>\<open>ModuleValue::call\<close>:
  first resolve \<^verbatim>\<open>attr("forward")\<close> on the module value, then invoke \<^verbatim>\<open>call\<close> on what it
  returned, with the same arguments; a failure of the first step is the failure of the whole.
\<close>

definition spec_call_forward ::
  "method_ops \<Rightarrow> Module \<Rightarrow> SourceRange \<Rightarrow> Method \<Rightarrow> Value list \<Rightarrow> Attribute list \<Rightarrow> nat
     \<Rightarrow> Value list result" where
  "spec_call_forward E module loc caller inputs attributes n_outputs =
     (let (resolved, caller') = ModuleValue_attr E module loc caller ''forward''
      in case resolved of
           Inl e \<Rightarrow> (Inl e, caller')
         | Inr target \<Rightarrow> call E target loc caller' inputs attributes n_outputs)"

text \<open>
  The recursion ends: \<^verbatim>\<open>attr\<close> returns a \<^verbatim>\<open>ModuleValue\<close> only for a registered
  submodule, which is smaller than the module.
\<close>

lemma find_Some_mem: "find P xs = Some x \<Longrightarrow> x \<in> set xs"
  by (induction xs) (auto split: if_splits)

lemma size_submodule:
  "(n, sub) \<in> set ms \<Longrightarrow> size sub < Suc (size_list (size_prod (\<lambda>_. 0) size) ms)"
  by (induction ms) auto

lemma find_module_size: "find_module module field = Some v \<Longrightarrow> size (snd v) < size module"
  by (cases module, cases v)
     (auto simp: find_module_def dest!: find_Some_mem size_submodule)

lemma ModuleValue_attr_rank:
  "ModuleValue_attr E module loc m field = (Inr v, m') \<Longrightarrow> rank v < rank (ModuleValue module)"
  by (auto simp: ModuleValue_attr_def split: option.splits if_splits prod.splits
           dest: find_module_size)

termination call
  by (relation "measure (\<lambda>(E, v, loc, m, inputs, attributes, n). rank v)")
     (auto dest: ModuleValue_attr_rank [OF sym])

section \<open>Auxiliary facts\<close>

lemma find_Some_D: "find P xs = Some x \<Longrightarrow> x \<in> set xs \<and> P x"
  by (induction xs) (auto split: if_splits)

lemma find_None_D: "find P xs = None \<Longrightarrow> \<forall>x\<in>set xs. \<not> P x"
  by (induction xs) (auto split: if_splits)

lemma find_distinct_Some:
  "distinct (map f xs) \<Longrightarrow> x \<in> set xs \<Longrightarrow> f x = k \<Longrightarrow> find (\<lambda>y. f y = k) xs = Some x"
  by (induction xs) (auto simp: image_iff)

lemma sint_int32: "- (2 ^ 31) \<le> n \<Longrightarrow> n < 2 ^ 31 \<Longrightarrow> sint (word_of_int n :: 32 word) = n"
  by (simp add: sint_sbintrunc' signed_take_bit_int_eq_self)

lemma createConstant_eq:
  "createConstant loc m val =
     (next_unique (graph m),
      m\<lparr>graph := (graph m)\<lparr>nodes := nodes (graph m) @
          [\<lparr>node_kind = Constant val, node_inputs = [], node_outputs = [next_unique (graph m)],
            source_location = Some loc\<rparr>],
        next_unique := Suc (next_unique (graph m))\<rparr>\<rparr>)"
  by (simp add: createConstant_def createConstant_node_def addOutput_def create_def
        setSourceLocation_def insertNode_def)

text \<open>
  The conversion at 0.1, at the double of the \<^verbatim>\<open>float\<close> nearest to 0.1, at \<open>10\<^sup>3\<^sup>0\<^sup>0\<close>,
  at 1.5, just above half of the least \<^verbatim>\<open>float\<close>, and at a signalling NaN.
\<close>

lemma float_of_double_examples:
  "float_of_double 0x3FB999999999999A = 0x3DCCCCCD"
  "float_of_double 0x3FB99999A0000000 = 0x3DCCCCCD"
  "float_of_double 0x7E37E43C8800759C = 0x7F800000"
  "float_of_double 0x3FF8000000000000 = 0x3FC00000"
  "float_of_double 0x36A0000000000001 = 1"
  "float_of_double 0xFFF4000000000001 = 0xFFE00000"
  by (simp_all add: float_of_double_def round_shift_def Let_def)

lemma map_by_index: "map (\<lambda>i. f (xs ! i)) [0..<length xs] = map f xs"
  by (rule nth_equalityI) simp_all

lemma py_getattr_default_py_none: "py_getattr_default attrs name py_none \<noteq> None"
  by (simp add: py_getattr_default_def py_none_def split: option.splits)

lemma example_forward_attr:
  "ModuleValue_attr E example_module loc m ''forward'' = (Inr (MethodValue example_module example_forward), m)"
  by (simp add: ModuleValue_attr_def find_module_def find_method_def example_module_def example_forward_def)

section \<open>Attribute lookup on a module value\<close>

text \<open>
  C1. \<^verbatim>\<open>ModuleValue::attr\<close> resolves a field by the first match in a fixed order. If a
  submodule of that name exists, the result is the module value of that submodule, whatever
  the parameters, methods and Python attributes of the module are. Otherwise, if a method of
  that name exists, the result is the method value pairing the module with the method,
  whatever the parameters and Python attributes are. Otherwise, if a parameter of that name
  exists, its slot is registered with the compiling method through
  \<^verbatim>\<open>get_or_add_parameter\<close> and the result is the graph value of that input, whatever
  the Python attributes are. Only when all three lookups fail does the result depend on the
  Python object of the module, and then on nothing else of the module.
\<close>

theorem ModuleValue_attr_precedence:
  "(\<forall>v. find_module (Module ms ps fs py cs) field = Some v \<longrightarrow>
      (\<forall>ps' fs' py' cs'.
         ModuleValue_attr E (Module ms ps' fs' py' cs') loc m field =
           (Inr (ModuleValue (snd v)), m)))
 \<and> (\<forall>v. find_module (Module ms ps fs py cs) field = None \<and>
        find_method (Module ms ps fs py cs) field = Some v \<longrightarrow>
      (\<forall>ps' py' cs'.
         ModuleValue_attr E (Module ms ps' fs py' cs') loc m field =
           (Inr (MethodValue (Module ms ps' fs py' cs') v), m)))
 \<and> (\<forall>v. find_module (Module ms ps fs py cs) field = None \<and>
        find_method (Module ms ps fs py cs) field = None \<and>
        find_parameter (Module ms ps fs py cs) field = Some v \<longrightarrow>
      (\<forall>py' cs'.
         ModuleValue_attr E (Module ms ps fs py' cs') loc m field =
           (Inr (SimpleValue (fst (get_or_add_parameter E m (param_slot v)))),
            snd (get_or_add_parameter E m (param_slot v)))))
 \<and> (find_module (Module ms ps fs py cs) field = None \<and>
     find_method (Module ms ps fs py cs) field = None \<and>
     find_parameter (Module ms ps fs py cs) field = None \<longrightarrow>
      ModuleValue_attr E (Module ms ps fs py cs) loc m field =
        ModuleValue_attr E (Module [] [] [] py cs) loc m field)"
  by (auto simp: ModuleValue_attr_def find_module_def find_method_def find_parameter_def
        split: prod.splits option.splits)

theorem ModuleValue_attr_precedence_witness:
  "ModuleValue_attr example_ops example_module (1, 5) example_caller ''layer1'' =
     (Inr (ModuleValue (Module [] [] [] [] [])), example_caller)
 \<and> ModuleValue_attr example_ops example_module (1, 5) example_caller ''forward'' =
     (Inr (MethodValue example_module example_forward), example_caller)
 \<and> ModuleValue_attr example_ops example_module (1, 5) example_caller ''weight'' =
     (Inr (SimpleValue 3), example_caller\<lparr>graph := \<lparr>nodes = [], next_unique = 4\<rparr>\<rparr>)
 \<and> ModuleValue_attr example_ops example_module (1, 5) example_caller ''act'' =
     (Inr (PythonValue (PyCallable ''function'' [])), example_caller)"
proof -
  let ?ms = "[(''layer1'', Module [] [] [] [] [])]"
  let ?ps = "[\<lparr>param_name = ''weight'', is_buffer = False, param_slot = 0\<rparr>,
        \<lparr>param_name = ''running_mean'', is_buffer = True, param_slot = 1\<rparr>]"
  let ?fs = "[example_forward]"
  let ?py = "[(''act'', PyCallable ''function'' []), (''hidden'', PyInt 5),
        (''dims'', PyTuple [PyInt 1, PyInt 2, PyInt 3])]"
  let ?cs = "[''dims'']"
  have M: "example_module = Module ?ms ?ps ?fs ?py ?cs"
    by (simp add: example_module_def)
  note t = ModuleValue_attr_precedence [of ?ms ?ps ?fs ?py ?cs _ example_ops "(1, 5)" example_caller]
  have 1: "find_module (Module ?ms ?ps ?fs ?py ?cs) ''layer1'' = Some (''layer1'', Module [] [] [] [] [])"
    by (simp add: find_module_def)
  have 2: "find_module (Module ?ms ?ps ?fs ?py ?cs) ''forward'' = None"
    "find_method (Module ?ms ?ps ?fs ?py ?cs) ''forward'' = Some example_forward"
    by (simp_all add: find_module_def find_method_def example_forward_def)
  have 3: "find_module (Module ?ms ?ps ?fs ?py ?cs) ''weight'' = None"
    "find_method (Module ?ms ?ps ?fs ?py ?cs) ''weight'' = None"
    "find_parameter (Module ?ms ?ps ?fs ?py ?cs) ''weight'' =
       Some \<lparr>param_name = ''weight'', is_buffer = False, param_slot = 0\<rparr>"
    by (simp_all add: find_module_def find_method_def find_parameter_def example_forward_def)
  have 4: "find_module (Module ?ms ?ps ?fs ?py ?cs) ''act'' = None"
    "find_method (Module ?ms ?ps ?fs ?py ?cs) ''act'' = None"
    "find_parameter (Module ?ms ?ps ?fs ?py ?cs) ''act'' = None"
    by (simp_all add: find_module_def find_method_def find_parameter_def example_forward_def)
  have g: "get_or_add_parameter example_ops example_caller 0 =
      (3, example_caller\<lparr>graph := \<lparr>nodes = [], next_unique = 4\<rparr>\<rparr>)"
    by (simp add: example_ops_def example_caller_def example_graph_def)
  have a: "ModuleValue_attr example_ops (Module [] [] [] ?py ?cs) (1, 5) example_caller ''act'' =
     (Inr (PythonValue (PyCallable ''function'' [])), example_caller)"
    by (simp add: ModuleValue_attr_def find_module_def find_method_def find_parameter_def
          py_getattr_default_def)
  have c1: "ModuleValue_attr example_ops example_module (1, 5) example_caller ''layer1'' =
     (Inr (ModuleValue (Module [] [] [] [] [])), example_caller)"
    using t [of "''layer1''", THEN conjunct1] 1 unfolding M by simp
  have c2: "ModuleValue_attr example_ops example_module (1, 5) example_caller ''forward'' =
     (Inr (MethodValue example_module example_forward), example_caller)"
    using t [of "''forward''", THEN conjunct2, THEN conjunct1] 2 unfolding M by simp
  have c3: "ModuleValue_attr example_ops example_module (1, 5) example_caller ''weight'' =
     (Inr (SimpleValue 3), example_caller\<lparr>graph := \<lparr>nodes = [], next_unique = 4\<rparr>\<rparr>)"
    using t [of "''weight''", THEN conjunct2, THEN conjunct2, THEN conjunct1] 3 g unfolding M by simp
  have c4: "ModuleValue_attr example_ops example_module (1, 5) example_caller ''act'' =
     (Inr (PythonValue (PyCallable ''function'' [])), example_caller)"
    using t [of "''act''", THEN conjunct2, THEN conjunct2, THEN conjunct2] 4 a unfolding M by simp
  from c1 c2 c3 c4 show ?thesis by (intro conjI)
qed

text \<open>
  C2. With no submodule, method or parameter of the name and no Python attribute of the
  name, the claim expects the failure \<^verbatim>\<open>module has no attribute '<field>'\<close>. The lookup
  \<^verbatim>\<open>py::getattr(py_module, field, py::none())\<close> then returns a reference to Python's
  \<^verbatim>\<open>None\<close>, which is not a null pointer, so the branch of the \<^verbatim>\<open>if\<close> is taken with
  \<^verbatim>\<open>None\<close> as the attribute: on the example module and the missing field \<^verbatim>\<open>bias\<close>
  the failure reports an attribute of type \<^verbatim>\<open>NoneType\<close> that is not usable.
\<close>

theorem ModuleValue_attr_missing_attribute:
  "ModuleValue_attr example_ops example_module (1, 5) example_caller ''bias'' =
     (Inl (ErrorReport (1, 5)
        [Str (''attribute '' @ apos), Str ''bias'', Str (apos @ '' of type '' @ apos),
         Str ''NoneType'',
         Str (apos @ '' is not usable in a script method (did you forget to add it __constants__?)'')]),
      example_caller)
   \<and> find_module example_module ''bias'' = None
   \<and> find_method example_module ''bias'' = None
   \<and> find_parameter example_module ''bias'' = None
   \<and> map_of (py_attrs example_module) ''bias'' = None
   \<and> fst (ModuleValue_attr example_ops example_module (1, 5) example_caller ''bias'') \<noteq>
       Inl (ErrorReport (1, 5) [Str (''module has no attribute '' @ apos), Str ''bias'', Str apos])"
  by (simp add: ModuleValue_attr_def find_module_def find_method_def find_parameter_def
        py_getattr_default_def py_none_def example_module_def example_forward_def apos_def)

text \<open>
  The last \<^verbatim>\<open>throw\<close> of \<^verbatim>\<open>ModuleValue::attr\<close> is never reached, for any module and
  field.
\<close>

lemma ModuleValue_attr_no_attribute_unreachable:
  "fst (ModuleValue_attr E module loc m field) \<noteq>
     Inl (ErrorReport loc [Str (''module has no attribute '' @ apos), Str field, Str apos])"
  using py_getattr_default_py_none [of "py_attrs module" field]
  by (auto simp: ModuleValue_attr_def apos_def split: option.splits prod.splits)

text \<open>
  C5. When the submodule, method and parameter lookups for a field all fail and the Python
  object of the module has an attribute of that name that is neither callable nor an
  instance of \<^verbatim>\<open>torch.nn.Module\<close>, then \<^verbatim>\<open>attr\<close> returns the constant value wrapping
  the attribute if the field is in the module's set of constant names, and otherwise fails
  with the report that the attribute, of its type, is not usable in a script method.
\<close>

theorem ModuleValue_attr_data_attribute:
  assumes "find_module module field = None"
    and "find_method module field = None"
    and "find_parameter module field = None"
    and "map_of (py_attrs module) field = Some a"
    and "\<not> isinstance_function a" and "\<not> isinstance_nn_Module a"
  shows "ModuleValue_attr E module loc m field =
     (if field \<in> set (constants_set module)
      then (Inr (ConstantPythonValue a), m)
      else (Inl (ErrorReport loc
              [Str (''attribute '' @ apos), Str field, Str (apos @ '' of type '' @ apos),
               Str (typeString a),
               Str (apos @ '' is not usable in a script method (did you forget to add it __constants__?)'')]),
            m))"
  using assms by (simp add: ModuleValue_attr_def py_getattr_default_def)

theorem ModuleValue_attr_data_attribute_witness:
  "ModuleValue_attr example_ops example_module (1, 5) example_caller ''hidden'' =
     (Inl (ErrorReport (1, 5)
        [Str (''attribute '' @ apos), Str ''hidden'', Str (apos @ '' of type '' @ apos),
         Str ''int'',
         Str (apos @ '' is not usable in a script method (did you forget to add it __constants__?)'')]),
      example_caller)
   \<and> ModuleValue_attr example_ops example_module (1, 5) example_caller ''dims'' =
     (Inr (ConstantPythonValue (PyTuple [PyInt 1, PyInt 2, PyInt 3])), example_caller)"
proof -
  have h: "find_module example_module ''hidden'' = None"
    "find_method example_module ''hidden'' = None"
    "find_parameter example_module ''hidden'' = None"
    "map_of (py_attrs example_module) ''hidden'' = Some (PyInt 5)"
    "\<not> isinstance_function (PyInt 5)" "\<not> isinstance_nn_Module (PyInt 5)"
    "''hidden'' \<notin> set (constants_set example_module)"
    by (simp_all add: find_module_def find_method_def find_parameter_def example_module_def
          example_forward_def)
  have d: "find_module example_module ''dims'' = None"
    "find_method example_module ''dims'' = None"
    "find_parameter example_module ''dims'' = None"
    "map_of (py_attrs example_module) ''dims'' = Some (PyTuple [PyInt 1, PyInt 2, PyInt 3])"
    "\<not> isinstance_function (PyTuple [PyInt 1, PyInt 2, PyInt 3])"
    "\<not> isinstance_nn_Module (PyTuple [PyInt 1, PyInt 2, PyInt 3])"
    "''dims'' \<in> set (constants_set example_module)"
    by (simp_all add: find_module_def find_method_def find_parameter_def example_module_def
          example_forward_def)
  have 1: "ModuleValue_attr example_ops example_module (1, 5) example_caller ''hidden'' =
     (Inl (ErrorReport (1, 5)
        [Str (''attribute '' @ apos), Str ''hidden'', Str (apos @ '' of type '' @ apos),
         Str ''int'',
         Str (apos @ '' is not usable in a script method (did you forget to add it __constants__?)'')]),
      example_caller)"
    using ModuleValue_attr_data_attribute [OF h(1-6), of example_ops "(1, 5)" example_caller] h(7)
    by simp
  have 2: "ModuleValue_attr example_ops example_module (1, 5) example_caller ''dims'' =
     (Inr (ConstantPythonValue (PyTuple [PyInt 1, PyInt 2, PyInt 3])), example_caller)"
    using ModuleValue_attr_data_attribute [OF d(1-6), of example_ops "(1, 5)" example_caller] d(7)
    by simp
  from 1 2 show ?thesis by (intro conjI)
qed

section \<open>Calling a method value\<close>

text \<open>
  C3, as amended. For a method value called with no keyword arguments: if the number of
  inputs differs from the declared input count of the method, the call fails with
  \<^verbatim>\<open>expected <declared> inputs but found <supplied>\<close> and the caller is unchanged;
  otherwise the call is emitted, and if the number of its outputs differs from the
  requested number the call fails with \<^verbatim>\<open>expected <produced> outputs but found
  <requested>\<close>, else it returns the outputs in order; in both cases the caller is as the
  emitted call left it. Called with keyword arguments, the method value fails with the
  keyword-argument report before any count is checked, and the caller is unchanged.
\<close>

theorem MethodValue_call_arity:
  "(attributes \<noteq> [] \<longrightarrow>
      call E (MethodValue module method) loc caller inputs attributes n_outputs =
        (Inl (ErrorReport loc
           [Str ''not yet implemented - calls to python functions using keyword arguments'']),
         caller))
 \<and> (attributes = [] \<longrightarrow>
      (num_inputs method \<noteq> length inputs \<longrightarrow>
         call E (MethodValue module method) loc caller inputs attributes n_outputs =
           (Inl (ErrorReport loc
              [Str ''expected '', Num (num_inputs method), Str '' '', Str ''inputs'',
               Str '' but found '', Num (length inputs)]),
            caller))
    \<and> (num_inputs method = length inputs \<longrightarrow>
         call E (MethodValue module method) loc caller inputs attributes n_outputs =
           (let (outputs, caller') = emit_call_to E caller method inputs
            in if length outputs \<noteq> n_outputs
               then (Inl (ErrorReport loc
                       [Str ''expected '', Num (length outputs), Str '' '', Str ''outputs'',
                        Str '' but found '', Num n_outputs]),
                     caller')
               else (Inr outputs, caller'))))"
  by (simp add: MethodValue_call_def ensureSizeMatches_def split: prod.splits)

theorem MethodValue_call_arity_witness:
  "call example_ops (MethodValue example_module example_forward) (1, 5) example_caller
     [0, 1, 2] [] 2 =
     (Inl (ErrorReport (1, 5)
        [Str ''expected '', Num 2, Str '' '', Str ''inputs'', Str '' but found '', Num 3]),
      example_caller)
   \<and> call example_ops (MethodValue example_module example_forward) (1, 5) example_caller
     [0, 1] [] 1 =
     (Inl (ErrorReport (1, 5)
        [Str ''expected '', Num 2, Str '' '', Str ''outputs'', Str '' but found '', Num 1]),
      example_caller\<lparr>graph := \<lparr>nodes = [], next_unique = 5\<rparr>\<rparr>)
   \<and> call example_ops (MethodValue example_module example_forward) (1, 5) example_caller
     [0, 1] [] 2 =
     (Inr [3, 4], example_caller\<lparr>graph := \<lparr>nodes = [], next_unique = 5\<rparr>\<rparr>)
   \<and> call example_ops (MethodValue example_module example_forward) (1, 5) example_caller
     [0, 1] [''dim'', ''keepdim''] 2 =
     (Inl (ErrorReport (1, 5)
        [Str ''not yet implemented - calls to python functions using keyword arguments'']),
      example_caller)"
proof -
  have n: "num_inputs example_forward = 2"
    by (simp add: example_forward_def)
  have emit: "emit_call_to example_ops example_caller example_forward inputs =
      ([3, 4], example_caller\<lparr>graph := \<lparr>nodes = [], next_unique = 5\<rparr>\<rparr>)" for inputs
    by (simp add: example_ops_def example_caller_def example_graph_def)
  show ?thesis
    using
      MethodValue_call_arity [of "[]" example_ops example_module example_forward "(1, 5)"
        example_caller "[0, 1, 2]" 2]
      MethodValue_call_arity [of "[]" example_ops example_module example_forward "(1, 5)"
        example_caller "[0, 1]" 1]
      MethodValue_call_arity [of "[]" example_ops example_module example_forward "(1, 5)"
        example_caller "[0, 1]" 2]
      MethodValue_call_arity [of "[''dim'', ''keepdim'']" example_ops example_module
        example_forward "(1, 5)" example_caller "[0, 1]" 2]
    by (simp add: n emit)
qed

text \<open>
  The claim as stated, without the condition on the keyword arguments, fails: three inputs
  and a keyword argument to a method of two inputs fail with the keyword-argument report,
  not with the arity report.
\<close>

theorem MethodValue_call_arity_counterexample:
  "fst (call example_ops (MethodValue example_module example_forward) (1, 5) example_caller
          [0, 1, 2] [''dim''] 2) =
     Inl (ErrorReport (1, 5)
       [Str ''not yet implemented - calls to python functions using keyword arguments''])
   \<and> fst (call example_ops (MethodValue example_module example_forward) (1, 5) example_caller
          [0, 1, 2] [''dim''] 2) \<noteq>
     Inl (ErrorReport (1, 5)
       [Str ''expected '', Num 2, Str '' '', Str ''inputs'', Str '' but found '', Num 3])"
  by (simp add: MethodValue_call_def)

section \<open>Keyword arguments\<close>

lemma call_keyword_fails:
  "attributes \<noteq> [] \<Longrightarrow> \<exists>e caller'. call E v loc caller inputs attributes n_outputs = (Inl e, caller')"
proof (induction E v loc caller inputs attributes n_outputs rule: call.induct)
  case (6 E module loc caller inputs attributes n_outputs)
  show ?case
  proof (cases "ModuleValue_attr E module loc caller ''forward''")
    case (Pair r c)
    show ?thesis
    proof (cases r)
      case (Inl e)
      with Pair show ?thesis by simp
    next
      case (Inr t)
      from "6.IH" [OF Pair [symmetric] Inr "6.prems"] Pair Inr show ?thesis by simp
    qed
  qed
qed (simp_all add: SugaredValue_call_def BuiltinFunction_call_def PythonValue_call_def
       MethodValue_call_def)

text \<open>
  C4, as amended. A call with a non-empty list of keyword arguments fails for every
  sugared value. For a Python value and a constant Python value the failure is the report
  that keyword arguments in Python calls are not supported, for a method value the report
  that calls with keyword arguments are not implemented, and in both cases the caller is
  unchanged. A module value does not look at the keyword arguments itself. Its call
  resolves \<^verbatim>\<open>forward\<close> first: if that fails, the call fails with the same error; if it
  resolves to a method value, a Python value or a constant Python value, the call fails with
  the keyword report of that value; if it resolves to the graph value of a parameter, the
  call fails with the default report that the value is not callable; and if it resolves to
  a submodule, the call is the call of that submodule with the same arguments. It never
  resolves to a builtin function. In each case the caller is as the resolution left it.
\<close>

theorem call_keyword_arguments:
  assumes "attributes \<noteq> []"
  shows "(\<exists>e caller'. call E v loc caller inputs attributes n_outputs = (Inl e, caller'))
       \<and> (\<forall>self. v = PythonValue self \<or> v = ConstantPythonValue self \<longrightarrow>
            call E v loc caller inputs attributes n_outputs =
              (Inl (ErrorReport loc [Str ''keyword arguments in Python calls aren't supported'']),
               caller))
       \<and> (\<forall>module method. v = MethodValue module method \<longrightarrow>
            call E v loc caller inputs attributes n_outputs =
              (Inl (ErrorReport loc
                 [Str ''not yet implemented - calls to python functions using keyword arguments'']),
               caller))
       \<and> (\<forall>module r c.
            v = ModuleValue module \<and>
            ModuleValue_attr E module loc caller ''forward'' = (r, c) \<longrightarrow>
              (\<forall>e. r = Inl e \<longrightarrow>
                 call E v loc caller inputs attributes n_outputs = (Inl e, c))
            \<and> (\<forall>mo f. r = Inr (MethodValue mo f) \<longrightarrow>
                 call E v loc caller inputs attributes n_outputs =
                   (Inl (ErrorReport loc
                      [Str ''not yet implemented - calls to python functions using keyword arguments'']),
                    c))
            \<and> (\<forall>a. r = Inr (PythonValue a) \<or> r = Inr (ConstantPythonValue a) \<longrightarrow>
                 call E v loc caller inputs attributes n_outputs =
                   (Inl (ErrorReport loc
                      [Str ''keyword arguments in Python calls aren't supported'']),
                    c))
            \<and> (\<forall>x. r = Inr (SimpleValue x) \<longrightarrow>
                 call E v loc caller inputs attributes n_outputs =
                   (Inl (ErrorReport loc [Str ''not callable'']), c))
            \<and> (\<forall>sub. r = Inr (ModuleValue sub) \<longrightarrow>
                 call E v loc caller inputs attributes n_outputs =
                   call E (ModuleValue sub) loc c inputs attributes n_outputs)
            \<and> (\<forall>name. r \<noteq> Inr (BuiltinFunction name)))"
proof -
  have fails: "\<exists>e caller'. call E v loc caller inputs attributes n_outputs = (Inl e, caller')"
    using assms by (rule call_keyword_fails)
  have on_python: "\<forall>self. v = PythonValue self \<or> v = ConstantPythonValue self \<longrightarrow>
            call E v loc caller inputs attributes n_outputs =
              (Inl (ErrorReport loc [Str ''keyword arguments in Python calls aren't supported'']),
               caller)"
    using assms by (auto simp: PythonValue_call_def)
  have on_method: "\<forall>module method. v = MethodValue module method \<longrightarrow>
            call E v loc caller inputs attributes n_outputs =
              (Inl (ErrorReport loc
                 [Str ''not yet implemented - calls to python functions using keyword arguments'']),
               caller)"
    using assms by (auto simp: MethodValue_call_def)
  have no_builtin: "r \<noteq> Inr (BuiltinFunction name)"
    if "ModuleValue_attr E module loc caller ''forward'' = (r, c)" for module r c name
    using that
    by (auto simp: ModuleValue_attr_def split: option.splits if_splits prod.splits)
  have on_module: "\<forall>module r c.
            v = ModuleValue module \<and>
            ModuleValue_attr E module loc caller ''forward'' = (r, c) \<longrightarrow>
              (\<forall>e. r = Inl e \<longrightarrow>
                 call E v loc caller inputs attributes n_outputs = (Inl e, c))
            \<and> (\<forall>mo f. r = Inr (MethodValue mo f) \<longrightarrow>
                 call E v loc caller inputs attributes n_outputs =
                   (Inl (ErrorReport loc
                      [Str ''not yet implemented - calls to python functions using keyword arguments'']),
                    c))
            \<and> (\<forall>a. r = Inr (PythonValue a) \<or> r = Inr (ConstantPythonValue a) \<longrightarrow>
                 call E v loc caller inputs attributes n_outputs =
                   (Inl (ErrorReport loc
                      [Str ''keyword arguments in Python calls aren't supported'']),
                    c))
            \<and> (\<forall>x. r = Inr (SimpleValue x) \<longrightarrow>
                 call E v loc caller inputs attributes n_outputs =
                   (Inl (ErrorReport loc [Str ''not callable'']), c))
            \<and> (\<forall>sub. r = Inr (ModuleValue sub) \<longrightarrow>
                 call E v loc caller inputs attributes n_outputs =
                   call E (ModuleValue sub) loc c inputs attributes n_outputs)
            \<and> (\<forall>name. r \<noteq> Inr (BuiltinFunction name))"
    using assms no_builtin
    by (auto simp: PythonValue_call_def MethodValue_call_def SugaredValue_call_def)
  from fails on_python on_method on_module show ?thesis by (intro conjI)
qed

theorem call_keyword_arguments_witness:
  "call example_ops (PythonValue (PyCallable ''function'' [])) (1, 5) example_caller [0] [''dim''] 1 =
     (Inl (ErrorReport (1, 5) [Str ''keyword arguments in Python calls aren't supported'']),
      example_caller)
   \<and> call example_ops (MethodValue example_module example_forward) (1, 5) example_caller
       [0, 1] [''dim''] 1 =
     (Inl (ErrorReport (1, 5)
        [Str ''not yet implemented - calls to python functions using keyword arguments'']),
      example_caller)
   \<and> call example_ops (ModuleValue example_module) (1, 5) example_caller
       [0, 1] [''dim''] 1 =
     (Inl (ErrorReport (1, 5)
        [Str ''not yet implemented - calls to python functions using keyword arguments'']),
      example_caller)
   \<and> call example_ops
       (ModuleValue (Module [] [\<lparr>param_name = ''forward'', is_buffer = False, param_slot = 0\<rparr>]
          [] [] []))
       (1, 5) example_caller [0] [''dim''] 1 =
     (Inl (ErrorReport (1, 5) [Str ''not callable'']),
      example_caller\<lparr>graph := \<lparr>nodes = [], next_unique = 4\<rparr>\<rparr>)
   \<and> call example_ops (ModuleValue (Module [] [] [] [(''forward'', PyStr ''no'')] []))
       (1, 5) example_caller [0] [''dim''] 1 =
     (Inl (ErrorReport (1, 5)
        [Str (''attribute '' @ apos), Str ''forward'', Str (apos @ '' of type '' @ apos),
         Str ''str'',
         Str (apos @ '' is not usable in a script method (did you forget to add it __constants__?)'')]),
      example_caller)
   \<and> call example_ops
       (ModuleValue (Module [(''forward'', Module [] [] [] [(''forward'', PyCallable ''function'' [])] [])]
          [] [] [] []))
       (1, 5) example_caller [0] [''dim''] 1 =
     (Inl (ErrorReport (1, 5) [Str ''keyword arguments in Python calls aren't supported'']),
      example_caller)"
proof -
  let ?P = "Module [] [\<lparr>param_name = ''forward'', is_buffer = False, param_slot = 0\<rparr>] [] [] []"
  let ?D = "Module [] [] [] [(''forward'', PyStr ''no'')] []"
  let ?F = "Module [] [] [] [(''forward'', PyCallable ''function'' [])] []"
  let ?S = "Module [(''forward'', ?F)] [] [] [] []"
  have ne: "[''dim''] \<noteq> ([]::Attribute list)" by simp
  note t = call_keyword_arguments [OF ne, of example_ops _ "(1, 5)" _ _ 1]
  note tm = t [THEN conjunct2, THEN conjunct2, THEN conjunct2, rule_format]
  have aP: "ModuleValue_attr example_ops ?P (1, 5) example_caller ''forward'' =
      (Inr (SimpleValue 3), example_caller\<lparr>graph := \<lparr>nodes = [], next_unique = 4\<rparr>\<rparr>)"
    by (simp add: ModuleValue_attr_def find_module_def find_method_def find_parameter_def
          example_ops_def example_caller_def example_graph_def)
  have aD: "ModuleValue_attr example_ops ?D (1, 5) example_caller ''forward'' =
      (Inl (ErrorReport (1, 5)
        [Str (''attribute '' @ apos), Str ''forward'', Str (apos @ '' of type '' @ apos),
         Str ''str'',
         Str (apos @ '' is not usable in a script method (did you forget to add it __constants__?)'')]),
       example_caller)"
    by (simp add: ModuleValue_attr_def find_module_def find_method_def find_parameter_def
          py_getattr_default_def)
  have aF: "ModuleValue_attr example_ops ?F (1, 5) example_caller ''forward'' =
      (Inr (PythonValue (PyCallable ''function'' [])), example_caller)"
    by (simp add: ModuleValue_attr_def find_module_def find_method_def find_parameter_def
          py_getattr_default_def)
  have aS: "ModuleValue_attr example_ops ?S (1, 5) example_caller ''forward'' =
      (Inr (ModuleValue ?F), example_caller)"
    by (simp add: ModuleValue_attr_def find_module_def)
  have 1: "call example_ops (PythonValue (PyCallable ''function'' [])) (1, 5) example_caller
       [0] [''dim''] 1 =
     (Inl (ErrorReport (1, 5) [Str ''keyword arguments in Python calls aren't supported'']),
      example_caller)"
    using t [of "PythonValue (PyCallable ''function'' [])" example_caller "[0]"] by simp
  have 2: "call example_ops (MethodValue example_module example_forward) (1, 5) example_caller
       [0, 1] [''dim''] 1 =
     (Inl (ErrorReport (1, 5)
        [Str ''not yet implemented - calls to python functions using keyword arguments'']),
      example_caller)"
    using t [of "MethodValue example_module example_forward" example_caller "[0, 1]"] by simp
  have 3: "call example_ops (ModuleValue example_module) (1, 5) example_caller
       [0, 1] [''dim''] 1 =
     (Inl (ErrorReport (1, 5)
        [Str ''not yet implemented - calls to python functions using keyword arguments'']),
      example_caller)"
    using tm [of "ModuleValue example_module" example_module example_caller _ example_caller "[0, 1]",
        THEN conjunct2, THEN conjunct1, rule_format] example_forward_attr
    by blast
  have 4: "call example_ops (ModuleValue ?P) (1, 5) example_caller [0] [''dim''] 1 =
     (Inl (ErrorReport (1, 5) [Str ''not callable'']),
      example_caller\<lparr>graph := \<lparr>nodes = [], next_unique = 4\<rparr>\<rparr>)"
    using tm [of "ModuleValue ?P" ?P example_caller _ _ "[0]",
        THEN conjunct2, THEN conjunct2, THEN conjunct2, THEN conjunct1, rule_format] aP
    by blast
  have 5: "call example_ops (ModuleValue ?D) (1, 5) example_caller [0] [''dim''] 1 =
     (Inl (ErrorReport (1, 5)
        [Str (''attribute '' @ apos), Str ''forward'', Str (apos @ '' of type '' @ apos),
         Str ''str'',
         Str (apos @ '' is not usable in a script method (did you forget to add it __constants__?)'')]),
      example_caller)"
    using tm [of "ModuleValue ?D" ?D example_caller _ _ "[0]", THEN conjunct1, rule_format] aD
    by blast
  have inner: "call example_ops (ModuleValue ?F) (1, 5) example_caller [0] [''dim''] 1 =
     (Inl (ErrorReport (1, 5) [Str ''keyword arguments in Python calls aren't supported'']),
      example_caller)"
    using tm [of "ModuleValue ?F" ?F example_caller _ _ "[0]",
        THEN conjunct2, THEN conjunct2, THEN conjunct1, rule_format] aF
    by blast
  have 6: "call example_ops (ModuleValue ?S) (1, 5) example_caller [0] [''dim''] 1 =
     (Inl (ErrorReport (1, 5) [Str ''keyword arguments in Python calls aren't supported'']),
      example_caller)"
    using tm [of "ModuleValue ?S" ?S example_caller _ _ "[0]",
        THEN conjunct2, THEN conjunct2, THEN conjunct2, THEN conjunct2, THEN conjunct1,
        rule_format] aS inner
    by metis
  from 1 2 3 4 5 6 show ?thesis by (intro conjI)
qed

text \<open>
  The claim as stated fails for a module value: called with a keyword argument, a module
  whose \<^verbatim>\<open>forward\<close> is a data attribute fails with the report of the attribute lookup,
  which is neither of the keyword-argument reports.
\<close>

theorem call_keyword_arguments_counterexample:
  "fst (call example_ops (ModuleValue (Module [] [] [] [(''forward'', PyInt 5)] [])) (1, 5)
          example_caller [0] [''dim''] 1) =
     Inl (ErrorReport (1, 5)
       [Str (''attribute '' @ apos), Str ''forward'', Str (apos @ '' of type '' @ apos),
        Str ''int'',
        Str (apos @ '' is not usable in a script method (did you forget to add it __constants__?)'')])
   \<and> fst (call example_ops (ModuleValue (Module [] [] [] [(''forward'', PyInt 5)] [])) (1, 5)
          example_caller [0] [''dim''] 1) \<noteq>
     Inl (ErrorReport (1, 5) [Str ''keyword arguments in Python calls aren't supported''])
   \<and> fst (call example_ops (ModuleValue (Module [] [] [] [(''forward'', PyInt 5)] [])) (1, 5)
          example_caller [0] [''dim''] 1) \<noteq>
     Inl (ErrorReport (1, 5)
       [Str ''not yet implemented - calls to python functions using keyword arguments''])"
  by (simp add: ModuleValue_attr_def find_module_def find_method_def find_parameter_def
        py_getattr_default_def py_none_def apos_def)

section \<open>Constant Python values\<close>

text \<open>
  C6, as amended. \<^verbatim>\<open>asValue\<close> of a constant value wrapping a Python integer within the
  range of \<^verbatim>\<open>int32_t\<close> inserts a zero-dimensional constant of kind \<^verbatim>\<open>kInt\<close> holding that
  integer and returns its output; for an integer outside the range the cast fails. For a
  Python float it inserts a zero-dimensional constant of kind \<^verbatim>\<open>kFloat\<close> holding the
  value converted to \<^verbatim>\<open>float\<close>, that is rounded to single precision. For an object that
  is not an integer, a float or a boolean it fails with the default of the base class, and
  the method is unchanged.
\<close>

theorem ConstantPythonValue_asValue_kinds:
  "(- (2 ^ 31) \<le> n \<and> n < 2 ^ 31 \<longrightarrow>
      ConstantPythonValue_asValue (PyInt n) loc m =
        (Inr (next_unique (graph m)),
         m\<lparr>graph := (graph m)\<lparr>nodes := nodes (graph m) @
             [\<lparr>node_kind = Constant
                 \<lparr>scalar_type = kInt, sizes = [], elements = [IntScalar (word_of_int n)]\<rparr>,
               node_inputs = [], node_outputs = [next_unique (graph m)],
               source_location = Some loc\<rparr>],
           next_unique := Suc (next_unique (graph m))\<rparr>\<rparr>)
      \<and> sint (word_of_int n :: 32 word) = n)
 \<and> (\<not> (- (2 ^ 31) \<le> n \<and> n < 2 ^ 31) \<longrightarrow>
      ConstantPythonValue_asValue (PyInt n) loc m = (Inl cast_error, m))
 \<and> ConstantPythonValue_asValue (PyFloat d) loc m =
        (Inr (next_unique (graph m)),
         m\<lparr>graph := (graph m)\<lparr>nodes := nodes (graph m) @
             [\<lparr>node_kind = Constant
                 \<lparr>scalar_type = kFloat, sizes = [],
                  elements = [FloatScalar (float_of_double d)]\<rparr>,
               node_inputs = [], node_outputs = [next_unique (graph m)],
               source_location = Some loc\<rparr>],
           next_unique := Suc (next_unique (graph m))\<rparr>\<rparr>)
 \<and> (\<not> isinstance_int self \<and> \<not> isinstance_float self \<and> \<not> isinstance_bool self \<longrightarrow>
      ConstantPythonValue_asValue self loc m =
        (Inl (ErrorReport loc [Str ''cannot be used as a value'']), m))"
  by (simp add: ConstantPythonValue_asValue_def createConstant_eq scalarTensor_def
        SugaredValue_asValue_def sint_int32)

theorem ConstantPythonValue_asValue_kinds_witness:
  "ConstantPythonValue_asValue (PyInt 5) (1, 5) example_caller =
     (Inr 3,
      example_caller\<lparr>graph := \<lparr>nodes =
          [\<lparr>node_kind = Constant \<lparr>scalar_type = kInt, sizes = [], elements = [IntScalar 5]\<rparr>,
            node_inputs = [], node_outputs = [3], source_location = Some (1, 5)\<rparr>],
        next_unique = 4\<rparr>\<rparr>)
   \<and> sint (5 :: 32 word) = 5
   \<and> ConstantPythonValue_asValue (PyStr ''five'') (1, 5) example_caller =
     (Inl (ErrorReport (1, 5) [Str ''cannot be used as a value'']), example_caller)
   \<and> ConstantPythonValue_asValue (PyInt (2 ^ 40)) (1, 5) example_caller =
     (Inl cast_error, example_caller)
   \<and> ConstantPythonValue_asValue (PyFloat 0x3FB999999999999A) (1, 5) example_caller =
     (Inr 3,
      example_caller\<lparr>graph := \<lparr>nodes =
          [\<lparr>node_kind = Constant
              \<lparr>scalar_type = kFloat, sizes = [], elements = [FloatScalar 0x3DCCCCCD]\<rparr>,
            node_inputs = [], node_outputs = [3], source_location = Some (1, 5)\<rparr>],
        next_unique = 4\<rparr>\<rparr>)
   \<and> ConstantPythonValue_asValue (PyFloat 0x3FB99999A0000000) (1, 5) example_caller =
       ConstantPythonValue_asValue (PyFloat 0x3FB999999999999A) (1, 5) example_caller
   \<and> ConstantPythonValue_asValue (PyFloat 0x7E37E43C8800759C) (1, 5) example_caller =
     (Inr 3,
      example_caller\<lparr>graph := \<lparr>nodes =
          [\<lparr>node_kind = Constant
              \<lparr>scalar_type = kFloat, sizes = [], elements = [FloatScalar 0x7F800000]\<rparr>,
            node_inputs = [], node_outputs = [3], source_location = Some (1, 5)\<rparr>],
        next_unique = 4\<rparr>\<rparr>)"
proof -
  note t = ConstantPythonValue_asValue_kinds [of _ "(1, 5)" example_caller _ "PyStr ''five''"]
  have g: "graph example_caller = \<lparr>nodes = [], next_unique = 3\<rparr>"
    by (simp add: example_caller_def example_graph_def)
  have 1: "ConstantPythonValue_asValue (PyInt 5) (1, 5) example_caller =
     (Inr 3,
      example_caller\<lparr>graph := \<lparr>nodes =
          [\<lparr>node_kind = Constant \<lparr>scalar_type = kInt, sizes = [], elements = [IntScalar 5]\<rparr>,
            node_inputs = [], node_outputs = [3], source_location = Some (1, 5)\<rparr>],
        next_unique = 4\<rparr>\<rparr>)"
    using t [of 5 0, THEN conjunct1] by (simp add: g)
  have 2: "sint (5 :: 32 word) = 5"
    using t [of 5 0, THEN conjunct1] by simp
  have 3: "ConstantPythonValue_asValue (PyStr ''five'') (1, 5) example_caller =
     (Inl (ErrorReport (1, 5) [Str ''cannot be used as a value'']), example_caller)"
    using t [of 5 0, THEN conjunct2, THEN conjunct2, THEN conjunct2] by simp
  have 4: "ConstantPythonValue_asValue (PyInt (2 ^ 40)) (1, 5) example_caller =
     (Inl cast_error, example_caller)"
    using t [of "2 ^ 40" 0, THEN conjunct2, THEN conjunct1] by simp
  have 5: "ConstantPythonValue_asValue (PyFloat 0x3FB999999999999A) (1, 5) example_caller =
     (Inr 3,
      example_caller\<lparr>graph := \<lparr>nodes =
          [\<lparr>node_kind = Constant
              \<lparr>scalar_type = kFloat, sizes = [], elements = [FloatScalar 0x3DCCCCCD]\<rparr>,
            node_inputs = [], node_outputs = [3], source_location = Some (1, 5)\<rparr>],
        next_unique = 4\<rparr>\<rparr>)"
    using t [of 0 "0x3FB999999999999A", THEN conjunct2, THEN conjunct2, THEN conjunct1]
    by (simp add: g float_of_double_examples)
  have 6: "ConstantPythonValue_asValue (PyFloat 0x3FB99999A0000000) (1, 5) example_caller =
     (Inr 3,
      example_caller\<lparr>graph := \<lparr>nodes =
          [\<lparr>node_kind = Constant
              \<lparr>scalar_type = kFloat, sizes = [], elements = [FloatScalar 0x3DCCCCCD]\<rparr>,
            node_inputs = [], node_outputs = [3], source_location = Some (1, 5)\<rparr>],
        next_unique = 4\<rparr>\<rparr>)"
    using t [of 0 "0x3FB99999A0000000", THEN conjunct2, THEN conjunct2, THEN conjunct1]
    by (simp add: g float_of_double_examples)
  have 7: "ConstantPythonValue_asValue (PyFloat 0x7E37E43C8800759C) (1, 5) example_caller =
     (Inr 3,
      example_caller\<lparr>graph := \<lparr>nodes =
          [\<lparr>node_kind = Constant
              \<lparr>scalar_type = kFloat, sizes = [], elements = [FloatScalar 0x7F800000]\<rparr>,
            node_inputs = [], node_outputs = [3], source_location = Some (1, 5)\<rparr>],
        next_unique = 4\<rparr>\<rparr>)"
    using t [of 0 "0x7E37E43C8800759C", THEN conjunct2, THEN conjunct2, THEN conjunct1]
    by (simp add: g float_of_double_examples)
  have 8: "ConstantPythonValue_asValue (PyFloat 0x3FB99999A0000000) (1, 5) example_caller =
       ConstantPythonValue_asValue (PyFloat 0x3FB999999999999A) (1, 5) example_caller"
    unfolding 5 6 by (rule refl)
  from 1 2 3 4 5 8 7 show ?thesis by (intro conjI)
qed

text \<open>
  The claim as stated fails at two inputs. \<^verbatim>\<open>True\<close> passes the integer check, which
  comes first, so the constant is of kind \<^verbatim>\<open>kInt\<close> and holds 1, and the branch for
  booleans is never taken. The integer \<open>2\<^sup>3\<^sup>1\<close> yields no constant: the cast to
  \<^verbatim>\<open>int32_t\<close> fails.
\<close>

theorem ConstantPythonValue_asValue_kinds_counterexample:
  "ConstantPythonValue_asValue (PyBool True) (1, 5) example_caller =
     (Inr 3,
      example_caller\<lparr>graph := \<lparr>nodes =
          [\<lparr>node_kind = Constant \<lparr>scalar_type = kInt, sizes = [], elements = [IntScalar 1]\<rparr>,
            node_inputs = [], node_outputs = [3], source_location = Some (1, 5)\<rparr>],
        next_unique = 4\<rparr>\<rparr>)
   \<and> ConstantPythonValue_asValue (PyInt 2147483648) (1, 5) example_caller =
     (Inl cast_error, example_caller)"
  by (simp add: ConstantPythonValue_asValue_def createConstant_eq scalarTensor_def
        example_caller_def example_graph_def)

text \<open>
  C7. \<^verbatim>\<open>unrolledFor\<close> of a constant value wrapping a tuple of \<open>n\<close> elements returns
  \<open>n\<close> constant values, one for each element, in the order of the tuple; for an object
  that is not a tuple it fails with the default of the base class.
\<close>

theorem ConstantPythonValue_unrolledFor_tuple:
  "ConstantPythonValue_unrolledFor (PyTuple xs) loc m = (Inr (map ConstantPythonValue xs), m)
 \<and> (\<not> isinstance_tuple self \<longrightarrow>
      ConstantPythonValue_unrolledFor self loc m =
        (Inl (ErrorReport loc [Str ''not iterable at compile time'']), m))"
  by (simp add: ConstantPythonValue_unrolledFor_def SugaredValue_unrolledFor_def map_by_index)

theorem ConstantPythonValue_unrolledFor_tuple_witness:
  "ConstantPythonValue_unrolledFor (PyTuple [PyInt 1, PyInt 2, PyInt 3]) (1, 5) example_caller =
     (Inr [ConstantPythonValue (PyInt 1), ConstantPythonValue (PyInt 2),
           ConstantPythonValue (PyInt 3)], example_caller)
   \<and> (\<exists>m1 m2 m3.
        ConstantPythonValue_asValue (PyInt 1) (1, 5) example_caller = (Inr 3, m1)
      \<and> ConstantPythonValue_asValue (PyInt 2) (1, 5) m1 = (Inr 4, m2)
      \<and> ConstantPythonValue_asValue (PyInt 3) (1, 5) m2 = (Inr 5, m3)
      \<and> map node_kind (nodes (graph m3)) =
          [Constant (scalarTensor kInt (IntScalar 1)), Constant (scalarTensor kInt (IntScalar 2)),
           Constant (scalarTensor kInt (IntScalar 3))])
   \<and> ConstantPythonValue_unrolledFor (PyInt 5) (1, 5) example_caller =
     (Inl (ErrorReport (1, 5) [Str ''not iterable at compile time'']), example_caller)"
proof -
  note t = ConstantPythonValue_unrolledFor_tuple [of _ "(1, 5)" example_caller]
  have 1: "ConstantPythonValue_unrolledFor (PyTuple [PyInt 1, PyInt 2, PyInt 3]) (1, 5) example_caller =
     (Inr [ConstantPythonValue (PyInt 1), ConstantPythonValue (PyInt 2),
           ConstantPythonValue (PyInt 3)], example_caller)"
    using t [of "[PyInt 1, PyInt 2, PyInt 3]" "PyInt 5", THEN conjunct1] by simp
  have 2: "ConstantPythonValue_unrolledFor (PyInt 5) (1, 5) example_caller =
     (Inl (ErrorReport (1, 5) [Str ''not iterable at compile time'']), example_caller)"
    using t [of "[]" "PyInt 5", THEN conjunct2] by simp
  have 3: "\<exists>m1 m2 m3.
        ConstantPythonValue_asValue (PyInt 1) (1, 5) example_caller = (Inr 3, m1)
      \<and> ConstantPythonValue_asValue (PyInt 2) (1, 5) m1 = (Inr 4, m2)
      \<and> ConstantPythonValue_asValue (PyInt 3) (1, 5) m2 = (Inr 5, m3)
      \<and> map node_kind (nodes (graph m3)) =
          [Constant (scalarTensor kInt (IntScalar 1)), Constant (scalarTensor kInt (IntScalar 2)),
           Constant (scalarTensor kInt (IntScalar 3))]"
    by (simp add: ConstantPythonValue_asValue_def createConstant_eq
          example_caller_def example_graph_def)
  from 1 3 2 show ?thesis by (intro conjI)
qed

section \<open>Attribute lookup on a Python value\<close>

text \<open>
  C8, as amended. \<^verbatim>\<open>PythonValue::attr\<close> fails with \<^verbatim>\<open>object has no attribute
  <field>\<close> when the wrapped object has no member of that name. When the member exists and
  neither the object is \<^verbatim>\<open>torch\<close> or \<^verbatim>\<open>torch.nn.functional\<close> with the member callable,
  nor the object and the member are both Python modules, it fails with \<^verbatim>\<open>unsupported
  attribute lookup on <repr>.\<close>. It returns a builtin function only when the object is one
  of the two modules and the member is callable, and a Python value, wrapping the member,
  only when both are Python modules; it returns nothing else and leaves the method
  unchanged. This holds whatever attributes the builtin types have.
\<close>

theorem PythonValue_attr_cases:
  "(py_getattr T self field = None \<longrightarrow>
      PythonValue_attr T self loc m field =
        (Inl (ErrorReport loc [Str ''object has no attribute '', Str field]), m))
 \<and> (\<forall>member. py_getattr T self field = Some member \<and>
        \<not> (isBuiltinModule self \<and> isinstance_function member) \<and>
        \<not> (isinstance_module self \<and> isinstance_module member) \<longrightarrow>
      PythonValue_attr T self loc m field =
        (Inl (ErrorReport loc [Str ''unsupported attribute lookup on '', Repr self, Str ''.'']),
         m))
 \<and> (\<forall>v m'. PythonValue_attr T self loc m field = (Inr v, m') \<longrightarrow>
      m' = m \<and>
      ((v = BuiltinFunction field \<and> isBuiltinModule self \<and>
        (\<exists>member. py_getattr T self field = Some member \<and> isinstance_function member))
       \<or> (\<exists>member. v = PythonValue member \<and> py_getattr T self field = Some member \<and>
             isinstance_module self \<and> isinstance_module member)))"
  by (auto simp: PythonValue_attr_def getattr_def split: option.splits if_splits)

theorem PythonValue_attr_cases_witness:
  "PythonValue_attr example_type_attrs example_torch (1, 5) example_caller ''add'' =
     (Inr (BuiltinFunction ''add''), example_caller)
 \<and> isBuiltinModule example_torch
 \<and> PythonValue_attr example_type_attrs example_torch (1, 5) example_caller ''nn'' =
     (Inr (PythonValue (PyModule ''torch.nn'' [(''functional'', PyModule ''torch.nn.functional'' [])])),
      example_caller)
 \<and> PythonValue_attr example_type_attrs example_torch (1, 5) example_caller ''__version__'' =
     (Inl (ErrorReport (1, 5)
        [Str ''unsupported attribute lookup on '', Repr example_torch, Str ''.'']),
      example_caller)
 \<and> PythonValue_attr example_type_attrs example_object (1, 5) example_caller ''depth'' =
     (Inl (ErrorReport (1, 5)
        [Str ''unsupported attribute lookup on '', Repr example_object, Str ''.'']),
      example_caller)
 \<and> PythonValue_attr example_type_attrs example_object (1, 5) example_caller ''width'' =
     (Inl (ErrorReport (1, 5) [Str ''object has no attribute '', Str ''width'']), example_caller)
 \<and> PythonValue_attr example_type_attrs (PyInt 5) (1, 5) example_caller ''real'' =
     (Inl (ErrorReport (1, 5)
        [Str ''unsupported attribute lookup on '', Repr (PyInt 5), Str ''.'']),
      example_caller)
 \<and> PythonValue_attr example_type_attrs (PyInt 5) (1, 5) example_caller ''bit_length'' =
     (Inl (ErrorReport (1, 5)
        [Str ''unsupported attribute lookup on '', Repr (PyInt 5), Str ''.'']),
      example_caller)
 \<and> PythonValue_attr example_type_attrs (PyInt 5) (1, 5) example_caller ''width'' =
     (Inl (ErrorReport (1, 5) [Str ''object has no attribute '', Str ''width'']), example_caller)"
proof -
  note t = PythonValue_attr_cases [of example_type_attrs _ _ "(1, 5)" example_caller]
  have add: "PythonValue_attr example_type_attrs example_torch (1, 5) example_caller ''add'' =
     (Inr (BuiltinFunction ''add''), example_caller)"
    by (simp add: PythonValue_attr_def getattr_def example_torch_def isBuiltinModule_def)
  have nn: "PythonValue_attr example_type_attrs example_torch (1, 5) example_caller ''nn'' =
     (Inr (PythonValue (PyModule ''torch.nn'' [(''functional'', PyModule ''torch.nn.functional'' [])])),
      example_caller)"
    by (simp add: PythonValue_attr_def getattr_def example_torch_def isBuiltinModule_def)
  have builtin: "isBuiltinModule example_torch"
    using t [of example_torch "''add''", THEN conjunct2, THEN conjunct2] add
    by blast
  have b: "\<not> isBuiltinModule example_object" "\<not> isinstance_module example_object"
    "\<not> isBuiltinModule (PyInt 5)" "\<not> isinstance_module (PyInt 5)"
    by (simp_all add: isBuiltinModule_def example_object_def)
  have ver: "py_getattr example_type_attrs example_torch ''__version__'' = Some (PyStr ''0.4.0'')"
    "\<not> isinstance_function (PyStr ''0.4.0'')" "\<not> isinstance_module (PyStr ''0.4.0'')"
    by (simp_all add: example_torch_def)
  have depth: "py_getattr example_type_attrs example_object ''depth'' = Some (PyInt 4)"
    by (simp add: example_object_def)
  have width: "py_getattr example_type_attrs example_object ''width'' = None"
    by (simp add: example_object_def)
  have int_real: "py_getattr example_type_attrs (PyInt 5) ''real'' = Some (PyInt 5)"
    and int_bit: "py_getattr example_type_attrs (PyInt 5) ''bit_length'' =
       Some (PyCallable ''builtin_function_or_method'' [])"
    and int_width: "py_getattr example_type_attrs (PyInt 5) ''width'' = None"
    by simp_all
  have 3: "PythonValue_attr example_type_attrs example_torch (1, 5) example_caller ''__version__'' =
     (Inl (ErrorReport (1, 5)
        [Str ''unsupported attribute lookup on '', Repr example_torch, Str ''.'']),
      example_caller)"
    using t [of example_torch "''__version__''", THEN conjunct2, THEN conjunct1] ver
    by simp
  have 4: "PythonValue_attr example_type_attrs example_object (1, 5) example_caller ''depth'' =
     (Inl (ErrorReport (1, 5)
        [Str ''unsupported attribute lookup on '', Repr example_object, Str ''.'']),
      example_caller)"
    using t [of example_object "''depth''", THEN conjunct2, THEN conjunct1] depth b
    by simp
  have 5: "PythonValue_attr example_type_attrs example_object (1, 5) example_caller ''width'' =
     (Inl (ErrorReport (1, 5) [Str ''object has no attribute '', Str ''width'']), example_caller)"
    using t [of example_object "''width''", THEN conjunct1] width
    by simp
  have 6: "PythonValue_attr example_type_attrs (PyInt 5) (1, 5) example_caller ''real'' =
     (Inl (ErrorReport (1, 5)
        [Str ''unsupported attribute lookup on '', Repr (PyInt 5), Str ''.'']),
      example_caller)"
    using t [of "PyInt 5" "''real''", THEN conjunct2, THEN conjunct1] int_real b
    by simp
  have 7: "PythonValue_attr example_type_attrs (PyInt 5) (1, 5) example_caller ''bit_length'' =
     (Inl (ErrorReport (1, 5)
        [Str ''unsupported attribute lookup on '', Repr (PyInt 5), Str ''.'']),
      example_caller)"
    using t [of "PyInt 5" "''bit_length''", THEN conjunct2, THEN conjunct1] int_bit b
    by simp
  have 8: "PythonValue_attr example_type_attrs (PyInt 5) (1, 5) example_caller ''width'' =
     (Inl (ErrorReport (1, 5) [Str ''object has no attribute '', Str ''width'']), example_caller)"
    using t [of "PyInt 5" "''width''", THEN conjunct1] int_width
    by simp
  from add builtin nn 3 4 5 6 7 8 show ?thesis by (intro conjI)
qed

text \<open>
  The claim as stated gives one message for every failure; for an object without the member
  the report is \<^verbatim>\<open>object has no attribute\<close>, not \<^verbatim>\<open>unsupported attribute lookup\<close>.
\<close>

theorem PythonValue_attr_cases_counterexample:
  "fst (PythonValue_attr example_type_attrs example_object (1, 5) example_caller ''width'') =
     Inl (ErrorReport (1, 5) [Str ''object has no attribute '', Str ''width''])
 \<and> fst (PythonValue_attr example_type_attrs example_object (1, 5) example_caller ''width'') \<noteq>
     Inl (ErrorReport (1, 5)
       [Str ''unsupported attribute lookup on '', Repr example_object, Str ''.''])
 \<and> \<not> isBuiltinModule example_object \<and> \<not> isinstance_module example_object"
  by (simp add: PythonValue_attr_def getattr_def example_object_def isBuiltinModule_def)

section \<open>Calling a module value\<close>

text \<open>
  C9. For every module value, argument list, keyword-argument list and expected output
  count, \<^verbatim>\<open>call\<close> on the module value gives the result, outputs and caller's graph or
  failure, of resolving \<^verbatim>\<open>attr("forward")\<close> on it and invoking \<^verbatim>\<open>call\<close> on what that
  returned with the same arguments.
\<close>

theorem ModuleValue_call_is_attr_forward_then_call:
  "call E (ModuleValue module) loc caller inputs attributes n_outputs =
   spec_call_forward E module loc caller inputs attributes n_outputs"
  unfolding spec_call_forward_def call.simps(6)
  by (cases "ModuleValue_attr E module loc caller ''forward''") simp

text \<open>
  On the example module, whose \<^verbatim>\<open>forward\<close> is a method of two inputs: the call with two
  inputs and two requested outputs returns the two values of the emitted call, and the call
  with one input fails with the arity report of the method.
\<close>

theorem ModuleValue_call_is_attr_forward_then_call_witness:
  "call example_ops (ModuleValue example_module) (1, 5) example_caller [0, 1] [] 2 =
     (Inr [3, 4], example_caller\<lparr>graph := \<lparr>nodes = [], next_unique = 5\<rparr>\<rparr>)
   \<and> call example_ops (ModuleValue example_module) (1, 5) example_caller [0] [] 2 =
     (Inl (ErrorReport (1, 5)
        [Str ''expected '', Num 2, Str '' '', Str ''inputs'', Str '' but found '', Num 1]),
      example_caller)"
proof -
  have emit: "emit_call_to example_ops example_caller example_forward inputs =
      ([3, 4], example_caller\<lparr>graph := \<lparr>nodes = [], next_unique = 5\<rparr>\<rparr>)" for inputs
    by (simp add: example_ops_def example_caller_def example_graph_def)
  have n: "num_inputs example_forward = 2"
    by (simp add: example_forward_def)
  note t = ModuleValue_call_is_attr_forward_then_call
             [of example_ops example_module "(1, 5)" example_caller _ "[]" 2]
  have 1: "call example_ops (ModuleValue example_module) (1, 5) example_caller [0, 1] [] 2 =
     (Inr [3, 4], example_caller\<lparr>graph := \<lparr>nodes = [], next_unique = 5\<rparr>\<rparr>)"
    unfolding t [of "[0, 1]"]
    by (simp add: spec_call_forward_def example_forward_attr MethodValue_call_def
          ensureSizeMatches_def emit n)
  have 2: "call example_ops (ModuleValue example_module) (1, 5) example_caller [0] [] 2 =
     (Inl (ErrorReport (1, 5)
        [Str ''expected '', Num 2, Str '' '', Str ''inputs'', Str '' but found '', Num 1]),
      example_caller)"
    unfolding t [of "[0]"]
    by (simp add: spec_call_forward_def example_forward_attr MethodValue_call_def
          ensureSizeMatches_def n)
  from 1 2 show ?thesis by (intro conjI)
qed

section \<open>Membership queries\<close>

text \<open>
  C10. In a module whose parameter names are unique, \<^verbatim>\<open>_has_parameter(name)\<close> is true
  exactly when a registered parameter of that name exists whose is-buffer flag is false,
  \<^verbatim>\<open>_has_buffer(name)\<close> exactly when one exists whose flag is true, and for no name are
  both true: a registered buffer is not reported by \<^verbatim>\<open>_has_parameter\<close>.
\<close>

theorem has_parameter_has_buffer_partition:
  assumes "distinct (map param_name (parameters self))"
  shows "(has_parameter self name \<longleftrightarrow>
            (\<exists>p \<in> set (parameters self). param_name p = name \<and> \<not> is_buffer p))
       \<and> (has_buffer self name \<longleftrightarrow>
            (\<exists>p \<in> set (parameters self). param_name p = name \<and> is_buffer p))
       \<and> \<not> (has_parameter self name \<and> has_buffer self name)"
proof (cases "find_parameter self name")
  case None
  then have no: "\<forall>p\<in>set (parameters self). param_name p \<noteq> name"
    unfolding find_parameter_def by (rule find_None_D)
  have "\<not> has_parameter self name" "\<not> has_buffer self name"
    using None by (simp_all add: has_parameter_def has_buffer_def)
  with no show ?thesis by blast
next
  case (Some r)
  then have r: "r \<in> set (parameters self)" "param_name r = name"
    unfolding find_parameter_def by (auto dest: find_Some_D)
  have uniq: "p = r" if "p \<in> set (parameters self)" "param_name p = name" for p
    using find_distinct_Some [OF assms that] Some
    unfolding find_parameter_def by simp
  have hp: "has_parameter self name \<longleftrightarrow> \<not> is_buffer r"
    and hb: "has_buffer self name \<longleftrightarrow> is_buffer r"
    using Some by (simp_all add: has_parameter_def has_buffer_def)
  have ex1: "(\<exists>p \<in> set (parameters self). param_name p = name \<and> \<not> is_buffer p) \<longleftrightarrow> \<not> is_buffer r"
    using r uniq by blast
  have ex2: "(\<exists>p \<in> set (parameters self). param_name p = name \<and> is_buffer p) \<longleftrightarrow> is_buffer r"
    using r uniq by blast
  show ?thesis unfolding hp hb ex1 ex2 by simp
qed

theorem has_parameter_has_buffer_partition_witness:
  "distinct (map param_name (parameters example_module))
   \<and> has_parameter example_module ''weight'' \<and> \<not> has_buffer example_module ''weight''
   \<and> has_buffer example_module ''running_mean'' \<and> \<not> has_parameter example_module ''running_mean''
   \<and> (\<exists>p \<in> set (parameters example_module). param_name p = ''running_mean'' \<and> is_buffer p)"
proof -
  have d: "distinct (map param_name (parameters example_module))"
    by (simp add: example_module_def)
  have w: "has_parameter example_module ''weight''" "has_buffer example_module ''running_mean''"
    by (simp_all add: example_module_def has_parameter_def has_buffer_def find_parameter_def)
  note a = has_parameter_has_buffer_partition [OF d, of "''weight''"]
  note b = has_parameter_has_buffer_partition [OF d, of "''running_mean''"]
  have 1: "\<not> has_buffer example_module ''weight''"
    using a [THEN conjunct2, THEN conjunct2] w(1) by blast
  have 2: "\<not> has_parameter example_module ''running_mean''"
    using b [THEN conjunct2, THEN conjunct2] w(2) by blast
  have 3: "\<exists>p \<in> set (parameters example_module). param_name p = ''running_mean'' \<and> is_buffer p"
    using b [THEN conjunct2, THEN conjunct1] w(2) by (rule iffD1)
  from d w 1 2 3 show ?thesis by (intro conjI)
qed

end
